theory Spec2Isabelle
  imports Main
begin

section \<open>Data model\<close>

text \<open>
  The tables of the migration (\<^verbatim>\<open>CREATE TABLE "Network"\<close>, \<^verbatim>\<open>"NetworkMembership"\<close>,
  \<^verbatim>\<open>"NetworkInvitation"\<close>, \<^verbatim>\<open>"NetworkApplication"\<close>) and the \<^verbatim>\<open>"User"\<close> table as the
  routes use it. Every \<^verbatim>\<open>TEXT\<close> column is a string, a nullable column is an option, a
  timestamp is a natural number. A table is the list of its rows.
\<close>

type_synonym ident = string
type_synonym timestamp = nat

record socialLinks =
  twitter :: "string option"
  linkedin :: "string option"
  instagram :: "string option"
  website :: "string option"

record user =
  u_id :: ident
  email :: string
  passwordHash :: string
  displayName :: string
  bio :: "string option"
  phone :: "string option"
  contactEmail :: "string option"
  u_socialLinks :: "socialLinks option"
  isPublicProfile :: bool
  u_createdAt :: timestamp

record network =
  n_id :: ident
  n_name :: string
  n_description :: "string option"
  ownerId :: ident
  n_themes :: "string list"
  n_logoUrl :: "string option"
  n_createdAt :: timestamp

record membership =
  m_id :: ident
  m_networkId :: ident
  m_userId :: ident
  m_role :: string
  m_status :: string
  joinedAt :: timestamp

record invitation =
  i_id :: ident
  i_networkId :: ident
  invitedUserId :: ident
  inviterId :: ident
  i_status :: string
  i_message :: "string option"
  i_createdAt :: timestamp

record application =
  a_id :: ident
  a_networkId :: ident
  applicantId :: ident
  a_message :: "string option"
  a_status :: string
  a_createdAt :: timestamp

record db =
  users :: "user list"
  networks :: "network list"
  memberships :: "membership list"
  invitations :: "invitation list"
  applications :: "application list"

definition empty_db :: db where
  "empty_db = \<lparr>users = [], networks = [], memberships = [], invitations = [], applications = []\<rparr>"

text \<open>
  What a store call can throw: the schema parser's error, and the database client's errors
  for a unique index (named as in the migration), a foreign key, and a row that an update
  or delete does not find.
\<close>

datatype exn =
  ZodError
  | UniqueConstraint string
  | ForeignKeyConstraint string
  | RecordNotFound

section \<open>The store\<close>

text \<open>
  One function per call of the database client that the routes make. \<^verbatim>\<open>findUnique\<close> gives
  the row or nothing; \<^verbatim>\<open>create\<close> throws on a primary key, on a unique index
  (\<^verbatim>\<open>CREATE UNIQUE INDEX\<close>) and on a foreign key of the migration; \<^verbatim>\<open>update\<close> and
  \<^verbatim>\<open>delete\<close> throw when the row is absent. Deleting a network removes the rows that
  reference it (\<^verbatim>\<open>ON DELETE CASCADE\<close>) in the same statement.
\<close>

definition user_findUnique :: "db \<Rightarrow> ident \<Rightarrow> user option" where
  "user_findUnique d i = find (\<lambda>u. u_id u = i) (users d)"

definition user_findByEmail :: "db \<Rightarrow> string \<Rightarrow> user option" where
  "user_findByEmail d e = find (\<lambda>u. email u = e) (users d)"

definition network_findUnique :: "db \<Rightarrow> ident \<Rightarrow> network option" where
  "network_findUnique d i = find (\<lambda>n. n_id n = i) (networks d)"

definition membership_findUnique :: "db \<Rightarrow> ident \<Rightarrow> ident \<Rightarrow> membership option" where
  "membership_findUnique d nid uid =
     find (\<lambda>m. m_networkId m = nid \<and> m_userId m = uid) (memberships d)"

definition invitation_findUnique :: "db \<Rightarrow> ident \<Rightarrow> invitation option" where
  "invitation_findUnique d i = find (\<lambda>x. i_id x = i) (invitations d)"

definition application_findUnique :: "db \<Rightarrow> ident \<Rightarrow> application option" where
  "application_findUnique d i = find (\<lambda>x. a_id x = i) (applications d)"

definition user_create :: "db \<Rightarrow> user \<Rightarrow> exn + db" where
  "user_create d u =
     (if u_id u \<in> set (map u_id (users d)) then Inl (UniqueConstraint ''User_pkey'')
      else if email u \<in> set (map email (users d)) then Inl (UniqueConstraint ''User_email_key'')
      else Inr (d\<lparr>users := users d @ [u]\<rparr>))"

definition user_update :: "db \<Rightarrow> ident \<Rightarrow> (user \<Rightarrow> user) \<Rightarrow> exn + (user \<times> db)" where
  "user_update d i f =
     (case user_findUnique d i of
        None \<Rightarrow> Inl RecordNotFound
      | Some u \<Rightarrow>
          Inr (f u, d\<lparr>users := map (\<lambda>x. if u_id x = i then f x else x) (users d)\<rparr>))"

definition network_create :: "db \<Rightarrow> network \<Rightarrow> exn + db" where
  "network_create d n =
     (if n_id n \<in> set (map n_id (networks d)) then Inl (UniqueConstraint ''Network_pkey'')
      else if user_findUnique d (ownerId n) = None
        then Inl (ForeignKeyConstraint ''Network_ownerId_fkey'')
      else Inr (d\<lparr>networks := networks d @ [n]\<rparr>))"

definition network_update :: "db \<Rightarrow> ident \<Rightarrow> (network \<Rightarrow> network) \<Rightarrow> exn + (network \<times> db)" where
  "network_update d i f =
     (case network_findUnique d i of
        None \<Rightarrow> Inl RecordNotFound
      | Some n \<Rightarrow>
          Inr (f n, d\<lparr>networks := map (\<lambda>x. if n_id x = i then f x else x) (networks d)\<rparr>))"

definition network_delete :: "db \<Rightarrow> ident \<Rightarrow> exn + db" where
  "network_delete d i =
     (case network_findUnique d i of
        None \<Rightarrow> Inl RecordNotFound
      | Some n \<Rightarrow>
          Inr (d\<lparr>networks := filter (\<lambda>x. n_id x \<noteq> i) (networks d),
                 memberships := filter (\<lambda>x. m_networkId x \<noteq> i) (memberships d),
                 invitations := filter (\<lambda>x. i_networkId x \<noteq> i) (invitations d),
                 applications := filter (\<lambda>x. a_networkId x \<noteq> i) (applications d)\<rparr>))"

definition membership_create :: "db \<Rightarrow> membership \<Rightarrow> exn + db" where
  "membership_create d m =
     (if m_id m \<in> set (map m_id (memberships d))
        then Inl (UniqueConstraint ''NetworkMembership_pkey'')
      else if membership_findUnique d (m_networkId m) (m_userId m) \<noteq> None
        then Inl (UniqueConstraint ''NetworkMembership_networkId_userId_key'')
      else if network_findUnique d (m_networkId m) = None
        then Inl (ForeignKeyConstraint ''NetworkMembership_networkId_fkey'')
      else if user_findUnique d (m_userId m) = None
        then Inl (ForeignKeyConstraint ''NetworkMembership_userId_fkey'')
      else Inr (d\<lparr>memberships := memberships d @ [m]\<rparr>))"

definition membership_delete :: "db \<Rightarrow> ident \<Rightarrow> ident \<Rightarrow> exn + db" where
  "membership_delete d nid uid =
     (case membership_findUnique d nid uid of
        None \<Rightarrow> Inl RecordNotFound
      | Some m \<Rightarrow>
          Inr (d\<lparr>memberships :=
                   filter (\<lambda>x. \<not> (m_networkId x = nid \<and> m_userId x = uid)) (memberships d)\<rparr>))"

definition invitation_create :: "db \<Rightarrow> invitation \<Rightarrow> exn + db" where
  "invitation_create d x =
     (if i_id x \<in> set (map i_id (invitations d))
        then Inl (UniqueConstraint ''NetworkInvitation_pkey'')
      else if find (\<lambda>y. i_networkId y = i_networkId x \<and> invitedUserId y = invitedUserId x)
                (invitations d) \<noteq> None
        then Inl (UniqueConstraint ''NetworkInvitation_networkId_invitedUserId_key'')
      else if network_findUnique d (i_networkId x) = None
        then Inl (ForeignKeyConstraint ''NetworkInvitation_networkId_fkey'')
      else if user_findUnique d (invitedUserId x) = None
        then Inl (ForeignKeyConstraint ''NetworkInvitation_invitedUserId_fkey'')
      else if user_findUnique d (inviterId x) = None
        then Inl (ForeignKeyConstraint ''NetworkInvitation_inviterId_fkey'')
      else Inr (d\<lparr>invitations := invitations d @ [x]\<rparr>))"

definition invitation_update :: "db \<Rightarrow> ident \<Rightarrow> string \<Rightarrow> exn + db" where
  "invitation_update d i st =
     (case invitation_findUnique d i of
        None \<Rightarrow> Inl RecordNotFound
      | Some x \<Rightarrow>
          Inr (d\<lparr>invitations :=
                   map (\<lambda>y. if i_id y = i then y\<lparr>i_status := st\<rparr> else y) (invitations d)\<rparr>))"

definition application_create :: "db \<Rightarrow> application \<Rightarrow> exn + db" where
  "application_create d x =
     (if a_id x \<in> set (map a_id (applications d))
        then Inl (UniqueConstraint ''NetworkApplication_pkey'')
      else if find (\<lambda>y. a_networkId y = a_networkId x \<and> applicantId y = applicantId x)
                (applications d) \<noteq> None
        then Inl (UniqueConstraint ''NetworkApplication_networkId_applicantId_key'')
      else if network_findUnique d (a_networkId x) = None
        then Inl (ForeignKeyConstraint ''NetworkApplication_networkId_fkey'')
      else if user_findUnique d (applicantId x) = None
        then Inl (ForeignKeyConstraint ''NetworkApplication_applicantId_fkey'')
      else Inr (d\<lparr>applications := applications d @ [x]\<rparr>))"

definition application_update :: "db \<Rightarrow> ident \<Rightarrow> string \<Rightarrow> exn + db" where
  "application_update d i st =
     (case application_findUnique d i of
        None \<Rightarrow> Inl RecordNotFound
      | Some x \<Rightarrow>
          Inr (d\<lparr>applications :=
                   map (\<lambda>y. if a_id y = i then y\<lparr>a_status := st\<rparr> else y) (applications d)\<rparr>))"

section \<open>Requests and replies\<close>

text \<open>
  A handler either sends a JSON body (\<^verbatim>\<open>res.json\<close>), sends a status with an error body
  (\<^verbatim>\<open>res.status(c).json({ error })\<close>), or lets the exception of a store call escape
  (a route without \<^verbatim>\<open>try/catch\<close>). An error body is a literal message or the message of
  the exception that was caught.
\<close>

datatype errbody = Msg string | ExnMessage exn

datatype 'a reply = Json 'a | Status nat errbody | Thrown exn

text \<open>
  The string formats that the schema parser checks with its own regular expressions and
  URL parser are parameters of the model. A body is the parsed JSON object: a property
  that is absent is \<open>None\<close>. The length of a string is the length that the parser
  compares with the bounds of the schema.
\<close>

record validators =
  isUrl :: "string \<Rightarrow> bool"
  isEmail :: "string \<Rightarrow> bool"
  isUuid :: "string \<Rightarrow> bool"

record networkBody =
  b_name :: "string option"
  b_description :: "string option"
  b_themes :: "string list option"
  b_logoUrl :: "string option"

record invitationBody =
  b_userId :: "string option"
  b_inviteMessage :: "string option"

record profileBody =
  b_phone :: "string option"
  b_contactEmail :: "string option"
  b_bio :: "string option"
  b_socialLinks :: "socialLinks option"
  b_isPublicProfile :: "bool option"

record signupBody =
  b_email :: "string option"
  b_password :: "string option"
  b_displayName :: "string option"

definition opt_ok :: "('a \<Rightarrow> bool) \<Rightarrow> 'a option \<Rightarrow> bool" where
  "opt_ok P x = (case x of None \<Rightarrow> True | Some v \<Rightarrow> P v)"

definition req_ok :: "('a \<Rightarrow> bool) \<Rightarrow> 'a option \<Rightarrow> bool" where
  "req_ok P x = (case x of None \<Rightarrow> False | Some v \<Rightarrow> P v)"

definition networkSchema :: "validators \<Rightarrow> networkBody \<Rightarrow> bool" where
  "networkSchema V b =
     (req_ok (\<lambda>s. 1 \<le> length s \<and> length s \<le> 100) (b_name b) \<and>
      opt_ok (\<lambda>s. length s \<le> 500) (b_description b) \<and>
      req_ok (\<lambda>ts. 1 \<le> length ts \<and> length ts \<le> 10) (b_themes b) \<and>
      opt_ok (isUrl V) (b_logoUrl b))"

definition networkSchema_partial :: "validators \<Rightarrow> networkBody \<Rightarrow> bool" where
  "networkSchema_partial V b =
     (opt_ok (\<lambda>s. 1 \<le> length s \<and> length s \<le> 100) (b_name b) \<and>
      opt_ok (\<lambda>s. length s \<le> 500) (b_description b) \<and>
      opt_ok (\<lambda>ts. 1 \<le> length ts \<and> length ts \<le> 10) (b_themes b) \<and>
      opt_ok (isUrl V) (b_logoUrl b))"

definition invitationSchema :: "validators \<Rightarrow> invitationBody \<Rightarrow> bool" where
  "invitationSchema V b =
     (req_ok (isUuid V) (b_userId b) \<and> opt_ok (\<lambda>s. length s \<le> 500) (b_inviteMessage b))"

definition applicationSchema :: "string option \<Rightarrow> bool" where
  "applicationSchema msg = opt_ok (\<lambda>s. length s \<le> 500) msg"

definition profileSchema :: "validators \<Rightarrow> profileBody \<Rightarrow> bool" where
  "profileSchema V b =
     (opt_ok (isEmail V) (b_contactEmail b) \<and>
      opt_ok (\<lambda>s. length s \<le> 1000) (b_bio b) \<and>
      opt_ok (\<lambda>l. opt_ok (isUrl V) (website l)) (b_socialLinks b))"

definition signupSchema :: "validators \<Rightarrow> signupBody \<Rightarrow> bool" where
  "signupSchema V b =
     (req_ok (isEmail V) (b_email b) \<and> req_ok (\<lambda>s. 6 \<le> length s) (b_password b))"

definition or_else :: "'a option \<Rightarrow> 'a \<Rightarrow> 'a" where
  "or_else x d = (case x of None \<Rightarrow> d | Some v \<Rightarrow> v)"

section \<open>The routes\<close>

text \<open>
  Each route is a function of the store and the request; \<open>caller\<close> is \<^verbatim>\<open>req.user.id\<close>.
  The identifiers and the timestamp that the store gives a new row are arguments. The
  result is the reply and the states of the store after each write the route made, in
  order: a route that made no write returns the empty list.
\<close>

text \<open>\<^verbatim>\<open>POST /api/signup\<close>. The password hash is an argument; the lookup by email shows that
  the email of a user is unique in the store.\<close>

definition signup ::
  "validators \<Rightarrow> ident \<Rightarrow> string \<Rightarrow> timestamp \<Rightarrow> db \<Rightarrow> signupBody \<Rightarrow> unit reply \<times> db list" where
  "signup V uid hash now d body =
     (if \<not> signupSchema V body then (Status 400 (ExnMessage ZodError), [])
      else
        let em = the (b_email body) in
        (case user_findByEmail d em of
           Some u \<Rightarrow> (Status 400 (Msg ''User already exists''), [])
         | None \<Rightarrow>
             (case user_create d
                     \<lparr>u_id = uid, email = em, passwordHash = hash,
                      displayName =
                        (case b_displayName body of
                           None \<Rightarrow> takeWhile (\<lambda>c. c \<noteq> CHR ''@'') em
                         | Some n \<Rightarrow> if n = [] then takeWhile (\<lambda>c. c \<noteq> CHR ''@'') em else n),
                      bio = None, phone = None, contactEmail = None, u_socialLinks = None,
                      isPublicProfile = False, u_createdAt = now\<rparr> of
                Inl e \<Rightarrow> (Status 400 (ExnMessage e), [])
              | Inr d1 \<Rightarrow> (Json (), [d1]))))"

text \<open>\<^verbatim>\<open>POST /api/networks\<close>: the network row, then the membership of the owner.\<close>

definition createNetwork ::
  "validators \<Rightarrow> ident \<Rightarrow> ident \<Rightarrow> timestamp \<Rightarrow> db \<Rightarrow> ident \<Rightarrow> networkBody
     \<Rightarrow> network reply \<times> db list" where
  "createNetwork V nid mid now d caller body =
     (if \<not> networkSchema V body then (Status 400 (ExnMessage ZodError), [])
      else
        let network = \<lparr>n_id = nid, n_name = the (b_name body),
                         n_description = b_description body, ownerId = caller,
                         n_themes = the (b_themes body), n_logoUrl = b_logoUrl body,
                         n_createdAt = now\<rparr> in
        (case network_create d network of
           Inl e \<Rightarrow> (Status 400 (ExnMessage e), [])
         | Inr d1 \<Rightarrow>
             (case membership_create d1
                     \<lparr>m_id = mid, m_networkId = n_id network, m_userId = caller,
                      m_role = ''owner'', m_status = ''active'', joinedAt = now\<rparr> of
                Inl e \<Rightarrow> (Status 400 (ExnMessage e), [d1])
              | Inr d2 \<Rightarrow> (Json network, [d1, d2]))))"

text \<open>\<^verbatim>\<open>PATCH /api/networks/:id\<close>: the fields that the body holds replace those of the row.\<close>

definition network_patch :: "networkBody \<Rightarrow> network \<Rightarrow> network" where
  "network_patch b n =
     n\<lparr>n_name := or_else (b_name b) (n_name n),
       n_description := (case b_description b of None \<Rightarrow> n_description n | Some v \<Rightarrow> Some v),
       n_themes := or_else (b_themes b) (n_themes n),
       n_logoUrl := (case b_logoUrl b of None \<Rightarrow> n_logoUrl n | Some v \<Rightarrow> Some v)\<rparr>"

definition updateNetwork ::
  "validators \<Rightarrow> db \<Rightarrow> ident \<Rightarrow> ident \<Rightarrow> networkBody \<Rightarrow> network reply \<times> db list" where
  "updateNetwork V d caller nid body =
     (case network_findUnique d nid of
        None \<Rightarrow> (Status 404 (Msg ''Network not found''), [])
      | Some network \<Rightarrow>
          if ownerId network \<noteq> caller then (Status 403 (Msg ''Not authorized''), [])
          else if \<not> networkSchema_partial V body then (Status 400 (ExnMessage ZodError), [])
          else
            (case network_update d nid (network_patch body) of
               Inl e \<Rightarrow> (Status 400 (ExnMessage e), [])
             | Inr (updated, d1) \<Rightarrow> (Json updated, [d1])))"

text \<open>\<^verbatim>\<open>DELETE /api/networks/:id\<close>, a route without \<^verbatim>\<open>try/catch\<close>.\<close>

definition deleteNetwork :: "db \<Rightarrow> ident \<Rightarrow> ident \<Rightarrow> unit reply \<times> db list" where
  "deleteNetwork d caller nid =
     (case network_findUnique d nid of
        None \<Rightarrow> (Status 404 (Msg ''Network not found''), [])
      | Some network \<Rightarrow>
          if ownerId network \<noteq> caller then (Status 403 (Msg ''Not authorized''), [])
          else
            (case network_delete d nid of
               Inl e \<Rightarrow> (Thrown e, [])
             | Inr d1 \<Rightarrow> (Json (), [d1])))"

text \<open>\<^verbatim>\<open>POST /api/networks/:id/invite\<close>.\<close>

definition inviteUser ::
  "validators \<Rightarrow> ident \<Rightarrow> timestamp \<Rightarrow> db \<Rightarrow> ident \<Rightarrow> ident \<Rightarrow> invitationBody
     \<Rightarrow> invitation reply \<times> db list" where
  "inviteUser V iid now d caller nid body =
     (case network_findUnique d nid of
        None \<Rightarrow> (Status 404 (Msg ''Network not found''), [])
      | Some network \<Rightarrow>
          if ownerId network \<noteq> caller then (Status 403 (Msg ''Only owner can invite''), [])
          else if \<not> invitationSchema V body then (Status 400 (ExnMessage ZodError), [])
          else
            let userId = the (b_userId body) in
            (case membership_findUnique d nid userId of
               Some existing \<Rightarrow> (Status 400 (Msg ''User already member''), [])
             | None \<Rightarrow>
                 let invitation = \<lparr>i_id = iid, i_networkId = nid, invitedUserId = userId,
                            inviterId = caller, i_status = ''pending'',
                            i_message = b_inviteMessage body, i_createdAt = now\<rparr> in
                 (case invitation_create d invitation of
                    Inl e \<Rightarrow> (Status 400 (ExnMessage e), [])
                  | Inr d1 \<Rightarrow> (Json invitation, [d1]))))"

text \<open>\<^verbatim>\<open>PATCH /api/invitations/:id\<close>, a route without \<^verbatim>\<open>try/catch\<close>: on accept the
  membership is inserted first, then the status is updated.\<close>

definition respondToInvitation ::
  "ident \<Rightarrow> timestamp \<Rightarrow> db \<Rightarrow> ident \<Rightarrow> ident \<Rightarrow> string \<Rightarrow> unit reply \<times> db list" where
  "respondToInvitation mid now d caller invId action =
     (if action \<notin> set [''accept'', ''reject''] then (Status 400 (Msg ''Invalid action''), [])
      else
        (case invitation_findUnique d invId of
           None \<Rightarrow> (Status 404 (Msg ''Invitation not found''), [])
         | Some invitation \<Rightarrow>
             if invitedUserId invitation \<noteq> caller then (Status 403 (Msg ''Not authorized''), [])
             else if action = ''accept'' then
               (case membership_create d
                       \<lparr>m_id = mid, m_networkId = i_networkId invitation, m_userId = caller,
                        m_role = ''member'', m_status = ''active'', joinedAt = now\<rparr> of
                  Inl e \<Rightarrow> (Thrown e, [])
                | Inr d1 \<Rightarrow>
                    (case invitation_update d1 invId ''accepted'' of
                       Inl e \<Rightarrow> (Thrown e, [d1])
                     | Inr d2 \<Rightarrow> (Json (), [d1, d2])))
             else
               (case invitation_update d invId ''rejected'' of
                  Inl e \<Rightarrow> (Thrown e, [])
                | Inr d1 \<Rightarrow> (Json (), [d1]))))"

text \<open>\<^verbatim>\<open>POST /api/networks/:id/apply\<close>.\<close>

definition applyToNetwork ::
  "ident \<Rightarrow> timestamp \<Rightarrow> db \<Rightarrow> ident \<Rightarrow> ident \<Rightarrow> string option
     \<Rightarrow> application reply \<times> db list" where
  "applyToNetwork aid now d caller nid message =
     (if \<not> applicationSchema message then (Status 400 (ExnMessage ZodError), [])
      else
        (case membership_findUnique d nid caller of
           Some existing \<Rightarrow> (Status 400 (Msg ''Already member''), [])
         | None \<Rightarrow>
             let application = \<lparr>a_id = aid, a_networkId = nid, applicantId = caller,
                        a_message = message, a_status = ''pending'', a_createdAt = now\<rparr> in
             (case application_create d application of
                Inl e \<Rightarrow> (Status 400 (ExnMessage e), [])
              | Inr d1 \<Rightarrow> (Json application, [d1]))))"

text \<open>\<^verbatim>\<open>PATCH /api/networks/:networkId/applications/:appId\<close>, a route without
  \<^verbatim>\<open>try/catch\<close>. The membership is inserted for the network of the path.\<close>

definition respondToApplication ::
  "ident \<Rightarrow> timestamp \<Rightarrow> db \<Rightarrow> ident \<Rightarrow> ident \<Rightarrow> ident \<Rightarrow> string \<Rightarrow> unit reply \<times> db list" where
  "respondToApplication mid now d caller networkId appId action =
     (if action \<notin> set [''approve'', ''reject''] then (Status 400 (Msg ''Invalid action''), [])
      else
        (case network_findUnique d networkId of
           None \<Rightarrow> (Status 404 (Msg ''Network not found''), [])
         | Some network \<Rightarrow>
             if ownerId network \<noteq> caller then (Status 403 (Msg ''Not authorized''), [])
             else
               (case application_findUnique d appId of
                  None \<Rightarrow> (Status 404 (Msg ''Application not found''), [])
                | Some application \<Rightarrow>
                    if action = ''approve'' then
                      (case membership_create d
                              \<lparr>m_id = mid, m_networkId = networkId, m_userId = applicantId application,
                               m_role = ''member'', m_status = ''active'', joinedAt = now\<rparr> of
                         Inl e \<Rightarrow> (Thrown e, [])
                       | Inr d1 \<Rightarrow>
                           (case application_update d1 appId ''approved'' of
                              Inl e \<Rightarrow> (Thrown e, [d1])
                            | Inr d2 \<Rightarrow> (Json (), [d1, d2])))
                    else
                      (case application_update d appId ''rejected'' of
                         Inl e \<Rightarrow> (Thrown e, [])
                       | Inr d1 \<Rightarrow> (Json (), [d1])))))"

text \<open>\<^verbatim>\<open>DELETE /api/networks/:id/members/:userId\<close>, a route without \<^verbatim>\<open>try/catch\<close>.\<close>

definition removeMember :: "db \<Rightarrow> ident \<Rightarrow> ident \<Rightarrow> ident \<Rightarrow> unit reply \<times> db list" where
  "removeMember d caller nid userId =
     (case network_findUnique d nid of
        None \<Rightarrow> (Status 404 (Msg ''Network not found''), [])
      | Some network \<Rightarrow>
          if ownerId network \<noteq> caller then (Status 403 (Msg ''Not authorized''), [])
          else if userId = caller then (Status 400 (Msg ''Cannot remove yourself''), [])
          else
            (case membership_delete d nid userId of
               Inl e \<Rightarrow> (Thrown e, [])
             | Inr d1 \<Rightarrow> (Json (), [d1])))"

text \<open>\<^verbatim>\<open>PATCH /api/users/profile\<close>: the reply is the row that the update returns.\<close>

definition profile_patch :: "profileBody \<Rightarrow> user \<Rightarrow> user" where
  "profile_patch b u =
     u\<lparr>phone := (case b_phone b of None \<Rightarrow> phone u | Some v \<Rightarrow> Some v),
       contactEmail := (case b_contactEmail b of None \<Rightarrow> contactEmail u | Some v \<Rightarrow> Some v),
       bio := (case b_bio b of None \<Rightarrow> bio u | Some v \<Rightarrow> Some v),
       u_socialLinks := (case b_socialLinks b of None \<Rightarrow> u_socialLinks u | Some v \<Rightarrow> Some v),
       isPublicProfile := or_else (b_isPublicProfile b) (isPublicProfile u)\<rparr>"

definition updateProfile ::
  "validators \<Rightarrow> db \<Rightarrow> ident \<Rightarrow> profileBody \<Rightarrow> user reply \<times> db list" where
  "updateProfile V d caller body =
     (if \<not> profileSchema V body then (Status 400 (ExnMessage ZodError), [])
      else
        (case user_update d caller (profile_patch body) of
           Inl e \<Rightarrow> (Status 400 (ExnMessage e), [])
         | Inr (user, d1) \<Rightarrow> (Json user, [d1])))"

text \<open>
  The object that \<^verbatim>\<open>GET /api/users/:id/profile\<close> sends: the selected columns. A property
  removed with \<^verbatim>\<open>delete\<close> is \<open>None\<close>; a property that is present holds the column's
  value, which may be null.
\<close>

record profileView =
  p_id :: ident
  p_displayName :: string
  p_bio :: "string option"
  p_phone :: "string option option"
  p_contactEmail :: "string option option"
  p_socialLinks :: "socialLinks option"
  p_isPublicProfile :: bool
  p_createdAt :: timestamp

text \<open>
  The route is registered without the authentication middleware and never reads the
  requester's identity; \<open>viewer\<close> is who sent the request (nobody, or a user id), kept as an
  argument so that statements can speak of it.
\<close>

definition viewProfile :: "db \<Rightarrow> ident option \<Rightarrow> ident \<Rightarrow> profileView reply" where
  "viewProfile d viewer uid =
     (case user_findUnique d uid of
        None \<Rightarrow> Status 404 (Msg ''User not found'')
      | Some u \<Rightarrow>
          let user = \<lparr>p_id = u_id u, p_displayName = displayName u, p_bio = bio u,
                      p_phone = Some (phone u), p_contactEmail = Some (contactEmail u),
                      p_socialLinks = u_socialLinks u, p_isPublicProfile = isPublicProfile u,
                      p_createdAt = u_createdAt u\<rparr> in
          if \<not> p_isPublicProfile user
            then Json (user\<lparr>p_phone := None, p_contactEmail := None\<rparr>)
          else Json user)"

section \<open>Sequences of requests\<close>

text \<open>
  A request names a route with its arguments. The routes registered with the authentication
  middleware run only for a caller that is a user of the store (the middleware finds the
  session's user); otherwise the middleware answers 401 and nothing is written.
\<close>

datatype request =
  Signup ident string timestamp signupBody
  | CreateNetwork ident ident timestamp ident networkBody
  | UpdateNetwork ident ident networkBody
  | DeleteNetwork ident ident
  | InviteUser ident timestamp ident ident invitationBody
  | RespondToInvitation ident timestamp ident ident string
  | ApplyToNetwork ident timestamp ident ident "string option"
  | RespondToApplication ident timestamp ident ident ident string
  | RemoveMember ident ident ident
  | UpdateProfile ident profileBody

definition authMiddleware :: "db \<Rightarrow> ident \<Rightarrow> db list \<Rightarrow> db list" where
  "authMiddleware d caller ws = (if user_findUnique d caller = None then [] else ws)"

fun writes :: "validators \<Rightarrow> db \<Rightarrow> request \<Rightarrow> db list" where
  "writes V d (Signup uid hash now body) = snd (signup V uid hash now d body)"
| "writes V d (CreateNetwork nid mid now caller body) =
     authMiddleware d caller (snd (createNetwork V nid mid now d caller body))"
| "writes V d (UpdateNetwork caller nid body) =
     authMiddleware d caller (snd (updateNetwork V d caller nid body))"
| "writes V d (DeleteNetwork caller nid) =
     authMiddleware d caller (snd (deleteNetwork d caller nid))"
| "writes V d (InviteUser iid now caller nid body) =
     authMiddleware d caller (snd (inviteUser V iid now d caller nid body))"
| "writes V d (RespondToInvitation mid now caller invId action) =
     authMiddleware d caller (snd (respondToInvitation mid now d caller invId action))"
| "writes V d (ApplyToNetwork aid now caller nid message) =
     authMiddleware d caller (snd (applyToNetwork aid now d caller nid message))"
| "writes V d (RespondToApplication mid now caller nid appId action) =
     authMiddleware d caller (snd (respondToApplication mid now d caller nid appId action))"
| "writes V d (RemoveMember caller nid userId) =
     authMiddleware d caller (snd (removeMember d caller nid userId))"
| "writes V d (UpdateProfile caller body) =
     authMiddleware d caller (snd (updateProfile V d caller body))"

text \<open>The store after a request: the last state written, or the store as it was.\<close>

definition exec :: "validators \<Rightarrow> db \<Rightarrow> request \<Rightarrow> db" where
  "exec V d r = last (d # writes V d r)"

definition run :: "validators \<Rightarrow> db \<Rightarrow> request list \<Rightarrow> db" where
  "run V d rs = foldl (exec V) d rs"

text \<open>
  The states of the store that can be seen: the empty store, and every state that a request
  writes from a state that can be seen, the states between two writes of one request
  included.
\<close>

inductive observable :: "validators \<Rightarrow> db \<Rightarrow> bool" for V :: validators where
  initial: "observable V empty_db"
| written: "observable V d \<Longrightarrow> s \<in> set (writes V d r) \<Longrightarrow> observable V s"

section \<open>The constraints of the schema\<close>

text \<open>
  The primary keys and unique indexes of the migration, and its foreign keys.
\<close>

definition unique_keys :: "db \<Rightarrow> bool" where
  "unique_keys d =
     (distinct (map u_id (users d)) \<and>
      distinct (map email (users d)) \<and>
      distinct (map n_id (networks d)) \<and>
      distinct (map m_id (memberships d)) \<and>
      distinct (map (\<lambda>m. (m_networkId m, m_userId m)) (memberships d)) \<and>
      distinct (map i_id (invitations d)) \<and>
      distinct (map (\<lambda>x. (i_networkId x, invitedUserId x)) (invitations d)) \<and>
      distinct (map a_id (applications d)) \<and>
      distinct (map (\<lambda>x. (a_networkId x, applicantId x)) (applications d)))"

definition foreign_keys :: "db \<Rightarrow> bool" where
  "foreign_keys d =
     ((\<forall>n \<in> set (networks d). ownerId n \<in> set (map u_id (users d))) \<and>
      (\<forall>m \<in> set (memberships d).
         m_networkId m \<in> set (map n_id (networks d)) \<and> m_userId m \<in> set (map u_id (users d))) \<and>
      (\<forall>x \<in> set (invitations d).
         i_networkId x \<in> set (map n_id (networks d)) \<and>
         invitedUserId x \<in> set (map u_id (users d)) \<and>
         inviterId x \<in> set (map u_id (users d))) \<and>
      (\<forall>x \<in> set (applications d).
         a_networkId x \<in> set (map n_id (networks d)) \<and>
         applicantId x \<in> set (map u_id (users d))))"

definition integrity :: "db \<Rightarrow> bool" where
  "integrity d = (unique_keys d \<and> foreign_keys d)"

section \<open>The life cycle of an invitation\<close>

text \<open>
  The statuses that the invitation route writes. A request creates the network \<open>N\<close> when it
  is the creation route called with \<open>N\<close> as the identifier of the new row. The pair
  \<open>(N, U)\<close> is settled on the invitation \<open>I\<close> in a store when every invitation of the
  pair is the row \<open>I\<close> with a status that the route has written, and the pair has an
  invitation unless the network is gone.
\<close>

definition terminal :: "string \<Rightarrow> bool" where
  "terminal st = (st = ''accepted'' \<or> st = ''rejected'')"

fun creates_network :: "ident \<Rightarrow> request \<Rightarrow> bool" where
  "creates_network N (CreateNetwork nid mid now caller body) = (nid = N)"
| "creates_network N r = False"

definition settled :: "ident \<Rightarrow> ident \<Rightarrow> ident \<Rightarrow> db \<Rightarrow> bool" where
  "settled N U I d =
     ((\<forall>y \<in> set (invitations d).
         i_networkId y = N \<and> invitedUserId y = U \<longrightarrow> i_id y = I \<and> terminal (i_status y)) \<and>
      ((N, U) \<in> set (map (\<lambda>y. (i_networkId y, invitedUserId y)) (invitations d)) \<or>
       N \<notin> set (map n_id (networks d))))"

section \<open>A concrete history\<close>

text \<open>
  Three users sign up; the first creates the network \<open>n1\<close> and invites the second, who
  rejects or accepts; the second creates the network \<open>n2\<close>; the first applies to \<open>n2\<close>
  and the third to \<open>n1\<close>. In another branch the first user fills in the contact fields
  of the profile. The format checks accept every string here.
\<close>

definition V0 :: validators where
  "V0 = \<lparr>isUrl = (\<lambda>s. True), isEmail = (\<lambda>s. True), isUuid = (\<lambda>s. True)\<rparr>"

definition r_signup1 :: request where
  "r_signup1 = Signup ''u1'' ''h1'' 1
     \<lparr>b_email = Some ''a@x'', b_password = Some ''secret'', b_displayName = None\<rparr>"

definition r_signup2 :: request where
  "r_signup2 = Signup ''u2'' ''h2'' 2
     \<lparr>b_email = Some ''b@x'', b_password = Some ''secret'', b_displayName = Some ''Bo''\<rparr>"

definition r_signup3 :: request where
  "r_signup3 = Signup ''u3'' ''h3'' 3
     \<lparr>b_email = Some ''c@x'', b_password = Some ''secret'', b_displayName = Some ''Cy''\<rparr>"

definition body_tech :: networkBody where
  "body_tech = \<lparr>b_name = Some ''Tech'', b_description = None, b_themes = Some [''tech''],
                 b_logoUrl = None\<rparr>"

definition r_create1 :: request where
  "r_create1 = CreateNetwork ''n1'' ''m1'' 4 ''u1'' body_tech"

definition r_create2 :: request where
  "r_create2 = CreateNetwork ''n2'' ''m2'' 5 ''u2''
     \<lparr>b_name = Some ''Games'', b_description = None, b_themes = Some [''games''],
      b_logoUrl = None\<rparr>"

definition r_invite :: request where
  "r_invite = InviteUser ''i1'' 6 ''u1'' ''n1''
     \<lparr>b_userId = Some ''u2'', b_inviteMessage = None\<rparr>"

definition r_reject :: request where
  "r_reject = RespondToInvitation ''m3'' 7 ''u2'' ''i1'' ''reject''"

definition r_accept :: request where
  "r_accept = RespondToInvitation ''m3'' 8 ''u2'' ''i1'' ''accept''"

definition r_apply1 :: request where
  "r_apply1 = ApplyToNetwork ''a1'' 9 ''u1'' ''n2'' (Some ''hi'')"

definition r_apply3 :: request where
  "r_apply3 = ApplyToNetwork ''a3'' 10 ''u3'' ''n1'' None"

definition r_profile :: request where
  "r_profile = UpdateProfile ''u1''
     \<lparr>b_phone = Some ''555'', b_contactEmail = Some ''a@biz'', b_bio = None,
      b_socialLinks = None, b_isPublicProfile = None\<rparr>"

definition db_users :: db where
  "db_users = run V0 empty_db [r_signup1, r_signup2, r_signup3]"

definition db_profile :: db where
  "db_profile = exec V0 db_users r_profile"

definition db_net :: db where
  "db_net = exec V0 db_users r_create1"

definition db_invited :: db where
  "db_invited = exec V0 db_net r_invite"

definition db_rejected :: db where
  "db_rejected = exec V0 db_invited r_reject"

definition db_accepted :: db where
  "db_accepted = exec V0 db_invited r_accept"

definition db_applied :: db where
  "db_applied = run V0 db_invited [r_create2, r_apply1, r_apply3]"

section \<open>Facts about lists\<close>

lemma find_SomeD: "find P xs = Some x \<Longrightarrow> x \<in> set xs \<and> P x"
  by (induction xs) (auto split: if_splits)

lemma find_key_None: "(find (\<lambda>x. k x = v) xs = None) = (v \<notin> k ` set xs)"
  by (induction xs) auto

lemma find_pair_None:
  "(find (\<lambda>x. f x = a \<and> g x = b) xs = None) = ((a, b) \<notin> (\<lambda>x. (f x, g x)) ` set xs)"
  by (induction xs) auto

lemma find_key_Some_mem: "find (\<lambda>x. k x = v) xs = Some y \<Longrightarrow> v \<in> k ` set xs"
  by (drule find_SomeD) auto

lemma find_append_conv:
  "find P (xs @ ys) = (case find P xs of None \<Rightarrow> find P ys | Some x \<Rightarrow> Some x)"
  by (induction xs) auto

lemma find_key_update:
  "(\<And>x. k (f x) = k x) \<Longrightarrow>
   find (\<lambda>x. k x = v) (map (\<lambda>x. if k x = v then f x else x) xs)
     = map_option f (find (\<lambda>x. k x = v) xs)"
  by (induction xs) auto

lemma map_key_update:
  "(\<And>x. k (f x) = k x) \<Longrightarrow> map k (map (\<lambda>x. if c x then f x else x) xs) = map k xs"
  by (induction xs) auto

lemma ball_update:
  "(\<And>x. P (f x) = P x) \<Longrightarrow>
     (\<forall>y \<in> set (map (\<lambda>x. if c x then f x else x) xs). P y) = (\<forall>x \<in> set xs. P x)"
  by (induction xs) auto

lemma filter_pair_remove1:
  "distinct (map (\<lambda>x. (f x, g x)) xs) \<Longrightarrow> find (\<lambda>x. f x = a \<and> g x = b) xs = Some m \<Longrightarrow>
     filter (\<lambda>x. \<not> (f x = a \<and> g x = b)) xs = remove1 m xs"
proof (induction xs)
  case Nil
  then show ?case by simp
next
  case (Cons x xs)
  show ?case
  proof (cases "f x = a \<and> g x = b")
    case True
    with Cons.prems have m: "m = x" by simp
    from True Cons.prems(1) have "\<forall>y \<in> set xs. \<not> (f y = a \<and> g y = b)"
      by (auto simp: image_iff)
    then have "filter (\<lambda>x. \<not> (f x = a \<and> g x = b)) xs = xs"
      by (simp add: filter_id_conv)
    with True m show ?thesis by simp
  next
    case False
    with Cons.prems have fm: "find (\<lambda>x. f x = a \<and> g x = b) xs = Some m" by simp
    then have "f m = a \<and> g m = b" by (auto dest: find_SomeD)
    with False have "x \<noteq> m" by auto
    with False Cons.IH fm Cons.prems(1) show ?thesis by simp
  qed
qed

lemma distinct_key_filter_le1:
  "distinct (map k xs) \<Longrightarrow> length (filter (\<lambda>x. k x = v) xs) \<le> 1"
proof (induction xs)
  case Nil
  then show ?case by simp
next
  case (Cons x xs)
  show ?case
  proof (cases "k x = v")
    case True
    with Cons.prems have "\<forall>y \<in> set xs. k y \<noteq> v" by (auto simp: image_iff)
    then have "filter (\<lambda>x. k x = v) xs = []" by (simp add: filter_empty_conv)
    with True show ?thesis by simp
  next
    case False
    with Cons show ?thesis by simp
  qed
qed

lemma distinct_pair_same:
  "distinct (map k xs) \<Longrightarrow> x \<in> set xs \<Longrightarrow> y \<in> set xs \<Longrightarrow> k y = k x \<Longrightarrow> y = x"
  by (meson distinct_map inj_onD)

section \<open>What a store call writes\<close>

lemma user_create_Inr:
  "(user_create d u = Inr d') =
     (u_id u \<notin> u_id ` set (users d) \<and> email u \<notin> email ` set (users d) \<and>
      d' = d\<lparr>users := users d @ [u]\<rparr>)"
  by (auto simp: user_create_def)

lemma network_create_Inr:
  "(network_create d n = Inr d') =
     (n_id n \<notin> n_id ` set (networks d) \<and> ownerId n \<in> u_id ` set (users d) \<and>
      d' = d\<lparr>networks := networks d @ [n]\<rparr>)"
  unfolding network_create_def user_findUnique_def find_key_None by auto

lemma membership_create_Inr:
  "(membership_create d m = Inr d') =
     (m_id m \<notin> m_id ` set (memberships d) \<and>
      (m_networkId m, m_userId m) \<notin> (\<lambda>x. (m_networkId x, m_userId x)) ` set (memberships d) \<and>
      m_networkId m \<in> n_id ` set (networks d) \<and> m_userId m \<in> u_id ` set (users d) \<and>
      d' = d\<lparr>memberships := memberships d @ [m]\<rparr>)"
  unfolding membership_create_def user_findUnique_def network_findUnique_def
        membership_findUnique_def find_key_None find_pair_None by auto

lemma invitation_create_Inr:
  "(invitation_create d x = Inr d') =
     (i_id x \<notin> i_id ` set (invitations d) \<and>
      (i_networkId x, invitedUserId x) \<notin> (\<lambda>y. (i_networkId y, invitedUserId y)) ` set (invitations d) \<and>
      i_networkId x \<in> n_id ` set (networks d) \<and> invitedUserId x \<in> u_id ` set (users d) \<and>
      inviterId x \<in> u_id ` set (users d) \<and>
      d' = d\<lparr>invitations := invitations d @ [x]\<rparr>)"
  unfolding invitation_create_def user_findUnique_def network_findUnique_def
        find_key_None find_pair_None by auto

lemma application_create_Inr:
  "(application_create d x = Inr d') =
     (a_id x \<notin> a_id ` set (applications d) \<and>
      (a_networkId x, applicantId x) \<notin> (\<lambda>y. (a_networkId y, applicantId y)) ` set (applications d) \<and>
      a_networkId x \<in> n_id ` set (networks d) \<and> applicantId x \<in> u_id ` set (users d) \<and>
      d' = d\<lparr>applications := applications d @ [x]\<rparr>)"
  unfolding application_create_def user_findUnique_def network_findUnique_def
        find_key_None find_pair_None by auto

lemma membership_delete_Inr:
  "membership_delete d n u = Inr d' \<Longrightarrow>
     d' = d\<lparr>memberships := filter (\<lambda>x. \<not> (m_networkId x = n \<and> m_userId x = u)) (memberships d)\<rparr>"
  by (simp add: membership_delete_def split: option.splits)

lemma network_delete_Inr:
  "network_delete d i = Inr d' \<Longrightarrow>
     d' = d\<lparr>networks := filter (\<lambda>x. n_id x \<noteq> i) (networks d),
            memberships := filter (\<lambda>x. m_networkId x \<noteq> i) (memberships d),
            invitations := filter (\<lambda>x. i_networkId x \<noteq> i) (invitations d),
            applications := filter (\<lambda>x. a_networkId x \<noteq> i) (applications d)\<rparr>"
  by (simp add: network_delete_def split: option.splits)

lemma invitation_update_Inr:
  "invitation_update d i st = Inr d' \<Longrightarrow>
     d' = d\<lparr>invitations := map (\<lambda>y. if i_id y = i then y\<lparr>i_status := st\<rparr> else y) (invitations d)\<rparr>"
  by (simp add: invitation_update_def split: option.splits)

lemma application_update_Inr:
  "application_update d i st = Inr d' \<Longrightarrow>
     d' = d\<lparr>applications := map (\<lambda>y. if a_id y = i then y\<lparr>a_status := st\<rparr> else y) (applications d)\<rparr>"
  by (simp add: application_update_def split: option.splits)

lemma network_update_Inr:
  "network_update d i f = Inr (n, d') \<Longrightarrow>
     d' = d\<lparr>networks := map (\<lambda>x. if n_id x = i then f x else x) (networks d)\<rparr>"
  by (simp add: network_update_def split: option.splits)

lemma user_update_Inr:
  "user_update d i f = Inr (n, d') \<Longrightarrow>
     d' = d\<lparr>users := map (\<lambda>x. if u_id x = i then f x else x) (users d)\<rparr>"
  by (simp add: user_update_def split: option.splits)

section \<open>Every write keeps the constraints\<close>

text \<open>
The store calls check the constraints themselves, so every state that a route writes
  satisfies them, whatever the route does with the errors.
\<close>

lemma user_create_integrity:
  "integrity d \<Longrightarrow> user_create d u = Inr d' \<Longrightarrow> integrity d'"
  by (simp add: user_create_Inr integrity_def unique_keys_def foreign_keys_def)

lemma network_create_integrity:
  "integrity d \<Longrightarrow> network_create d n = Inr d' \<Longrightarrow> integrity d'"
  by (simp add: network_create_Inr integrity_def unique_keys_def foreign_keys_def)

lemma membership_create_integrity:
  "integrity d \<Longrightarrow> membership_create d m = Inr d' \<Longrightarrow> integrity d'"
  by (simp add: membership_create_Inr integrity_def unique_keys_def foreign_keys_def)

lemma invitation_create_integrity:
  "integrity d \<Longrightarrow> invitation_create d m = Inr d' \<Longrightarrow> integrity d'"
  by (simp add: invitation_create_Inr integrity_def unique_keys_def foreign_keys_def)

lemma application_create_integrity:
  "integrity d \<Longrightarrow> application_create d m = Inr d' \<Longrightarrow> integrity d'"
  by (simp add: application_create_Inr integrity_def unique_keys_def foreign_keys_def)

lemma membership_delete_integrity:
  "integrity d \<Longrightarrow> membership_delete d n u = Inr d' \<Longrightarrow> integrity d'"
  by (drule membership_delete_Inr)
     (simp add: integrity_def unique_keys_def foreign_keys_def distinct_map_filter)

lemma network_delete_integrity:
  "integrity d \<Longrightarrow> network_delete d n = Inr d' \<Longrightarrow> integrity d'"
  by (drule network_delete_Inr)
     (auto simp add: integrity_def unique_keys_def foreign_keys_def distinct_map_filter)

lemma invitation_update_integrity:
  assumes "integrity d" and "invitation_update d i st = Inr d'"
  shows "integrity d'"
proof -
  let ?g = "\<lambda>y. if i_id y = i then y\<lparr>i_status := st\<rparr> else y"
  have d': "d' = d\<lparr>invitations := map ?g (invitations d)\<rparr>"
    using assms(2) by (rule invitation_update_Inr)
  have t: "users d' = users d" "networks d' = networks d" "memberships d' = memberships d"
    "applications d' = applications d" "invitations d' = map ?g (invitations d)"
    by (simp_all add: d')
  have k1: "map i_id (map ?g (invitations d)) = map i_id (invitations d)"
    by (rule map_key_update) simp
  have k2: "map (\<lambda>x. (i_networkId x, invitedUserId x)) (map ?g (invitations d))
              = map (\<lambda>x. (i_networkId x, invitedUserId x)) (invitations d)"
    by (rule map_key_update) simp
  have f: "(\<forall>x \<in> set (map ?g (invitations d)).
              i_networkId x \<in> set (map n_id (networks d)) \<and>
              invitedUserId x \<in> set (map u_id (users d)) \<and>
              inviterId x \<in> set (map u_id (users d)))
           = (\<forall>x \<in> set (invitations d).
              i_networkId x \<in> set (map n_id (networks d)) \<and>
              invitedUserId x \<in> set (map u_id (users d)) \<and>
              inviterId x \<in> set (map u_id (users d)))"
    by (rule ball_update) simp
  show ?thesis
    using assms(1) unfolding integrity_def unique_keys_def foreign_keys_def t k1 k2 f .
qed

lemma application_update_integrity:
  assumes "integrity d" and "application_update d i st = Inr d'"
  shows "integrity d'"
proof -
  let ?g = "\<lambda>y. if a_id y = i then y\<lparr>a_status := st\<rparr> else y"
  have d': "d' = d\<lparr>applications := map ?g (applications d)\<rparr>"
    using assms(2) by (rule application_update_Inr)
  have t: "users d' = users d" "networks d' = networks d" "memberships d' = memberships d"
    "invitations d' = invitations d" "applications d' = map ?g (applications d)"
    by (simp_all add: d')
  have k1: "map a_id (map ?g (applications d)) = map a_id (applications d)"
    by (rule map_key_update) simp
  have k2: "map (\<lambda>x. (a_networkId x, applicantId x)) (map ?g (applications d))
              = map (\<lambda>x. (a_networkId x, applicantId x)) (applications d)"
    by (rule map_key_update) simp
  have f: "(\<forall>x \<in> set (map ?g (applications d)).
              a_networkId x \<in> set (map n_id (networks d)) \<and>
              applicantId x \<in> set (map u_id (users d)))
           = (\<forall>x \<in> set (applications d).
              a_networkId x \<in> set (map n_id (networks d)) \<and>
              applicantId x \<in> set (map u_id (users d)))"
    by (rule ball_update) simp
  show ?thesis
    using assms(1) unfolding integrity_def unique_keys_def foreign_keys_def t k1 k2 f .
qed

lemma network_update_integrity:
  assumes "integrity d" and "network_update d i (network_patch b) = Inr (n, d')"
  shows "integrity d'"
proof -
  let ?g = "\<lambda>x. if n_id x = i then network_patch b x else x"
  have d': "d' = d\<lparr>networks := map ?g (networks d)\<rparr>"
    using assms(2) by (rule network_update_Inr)
  have t: "users d' = users d" "networks d' = map ?g (networks d)"
    "memberships d' = memberships d" "invitations d' = invitations d"
    "applications d' = applications d"
    by (simp_all add: d')
  have k1: "map n_id (map ?g (networks d)) = map n_id (networks d)"
    by (rule map_key_update) (simp add: network_patch_def)
  have f: "(\<forall>x \<in> set (map ?g (networks d)). ownerId x \<in> set (map u_id (users d)))
           = (\<forall>x \<in> set (networks d). ownerId x \<in> set (map u_id (users d)))"
    by (rule ball_update) (simp add: network_patch_def)
  show ?thesis
    using assms(1) unfolding integrity_def unique_keys_def foreign_keys_def t k1 f .
qed

lemma user_update_integrity:
  assumes "integrity d" and "user_update d i (profile_patch b) = Inr (n, d')"
  shows "integrity d'"
proof -
  let ?g = "\<lambda>x. if u_id x = i then profile_patch b x else x"
  have d': "d' = d\<lparr>users := map ?g (users d)\<rparr>"
    using assms(2) by (rule user_update_Inr)
  have t: "users d' = map ?g (users d)" "networks d' = networks d"
    "memberships d' = memberships d" "invitations d' = invitations d"
    "applications d' = applications d"
    by (simp_all add: d')
  have k1: "map u_id (map ?g (users d)) = map u_id (users d)"
    by (rule map_key_update) (simp add: profile_patch_def)
  have k2: "map email (map ?g (users d)) = map email (users d)"
    by (rule map_key_update) (simp add: profile_patch_def)
  show ?thesis
    using assms(1) unfolding integrity_def unique_keys_def foreign_keys_def t k1 k2 .
qed

lemma signup_integrity:
  "integrity d \<Longrightarrow> s \<in> set (snd (signup V uid hash now d body)) \<Longrightarrow> integrity s"
  by (auto simp: signup_def Let_def split: if_splits option.splits sum.splits
           dest: user_create_integrity)

lemma createNetwork_integrity:
  "integrity d \<Longrightarrow> s \<in> set (snd (createNetwork V nid mid now d caller body)) \<Longrightarrow> integrity s"
  by (auto simp: createNetwork_def Let_def split: if_splits option.splits sum.splits
           dest: network_create_integrity membership_create_integrity)

lemma updateNetwork_integrity:
  "integrity d \<Longrightarrow> s \<in> set (snd (updateNetwork V d caller nid body)) \<Longrightarrow> integrity s"
  by (auto simp: updateNetwork_def Let_def split: if_splits option.splits sum.splits prod.splits
           dest: network_update_integrity)

lemma deleteNetwork_integrity:
  "integrity d \<Longrightarrow> s \<in> set (snd (deleteNetwork d caller nid)) \<Longrightarrow> integrity s"
  by (auto simp: deleteNetwork_def Let_def split: if_splits option.splits sum.splits
           dest: network_delete_integrity)

lemma inviteUser_integrity:
  "integrity d \<Longrightarrow> s \<in> set (snd (inviteUser V iid now d caller nid body)) \<Longrightarrow> integrity s"
  by (auto simp: inviteUser_def Let_def split: if_splits option.splits sum.splits
           dest: invitation_create_integrity)

lemma respondToInvitation_integrity:
  "integrity d \<Longrightarrow> s \<in> set (snd (respondToInvitation mid now d caller invId action))
     \<Longrightarrow> integrity s"
  by (auto simp: respondToInvitation_def Let_def split: if_splits option.splits sum.splits
           dest: membership_create_integrity invitation_update_integrity)

lemma applyToNetwork_integrity:
  "integrity d \<Longrightarrow> s \<in> set (snd (applyToNetwork aid now d caller nid message)) \<Longrightarrow> integrity s"
  by (auto simp: applyToNetwork_def Let_def split: if_splits option.splits sum.splits
           dest: application_create_integrity)

lemma respondToApplication_integrity:
  "integrity d \<Longrightarrow> s \<in> set (snd (respondToApplication mid now d caller nid appId action))
     \<Longrightarrow> integrity s"
  by (auto simp: respondToApplication_def Let_def split: if_splits option.splits sum.splits
           dest: membership_create_integrity application_update_integrity)

lemma removeMember_integrity:
  "integrity d \<Longrightarrow> s \<in> set (snd (removeMember d caller nid userId)) \<Longrightarrow> integrity s"
  by (auto simp: removeMember_def Let_def split: if_splits option.splits sum.splits
           dest: membership_delete_integrity)

lemma updateProfile_integrity:
  "integrity d \<Longrightarrow> s \<in> set (snd (updateProfile V d caller body)) \<Longrightarrow> integrity s"
  by (auto simp: updateProfile_def Let_def split: if_splits option.splits sum.splits prod.splits
           dest: user_update_integrity)

lemma writes_integrity:
  "integrity d \<Longrightarrow> s \<in> set (writes V d r) \<Longrightarrow> integrity s"
  by (cases r)
     (auto simp: authMiddleware_def split: if_splits
           dest: signup_integrity createNetwork_integrity updateNetwork_integrity
             deleteNetwork_integrity inviteUser_integrity respondToInvitation_integrity
             applyToNetwork_integrity respondToApplication_integrity removeMember_integrity
             updateProfile_integrity)

lemma empty_db_integrity: "integrity empty_db"
  by (simp add: integrity_def unique_keys_def foreign_keys_def empty_db_def)

lemma observable_integrity: "observable V d \<Longrightarrow> integrity d"
  by (induction rule: observable.induct) (auto intro: empty_db_integrity writes_integrity)

lemma exec_cases: "exec V d r = d \<or> exec V d r \<in> set (writes V d r)"
  by (cases "writes V d r" rule: rev_cases) (simp_all add: exec_def)

lemma observable_exec: "observable V d \<Longrightarrow> observable V (exec V d r)"
  using exec_cases [of V d r] by (auto intro: observable.written)

lemma observable_run: "observable V d \<Longrightarrow> observable V (run V d rs)"
  unfolding run_def by (induction rs arbitrary: d) (simp_all add: observable_exec)

section \<open>A settled pair stays settled\<close>

lemma settled_keep:
  "settled N U I d \<Longrightarrow> invitations s = invitations d \<Longrightarrow>
     (N \<in> n_id ` set (networks s) \<Longrightarrow> N \<in> n_id ` set (networks d)) \<Longrightarrow> settled N U I s"
  unfolding settled_def by auto

lemma settled_user_create: "settled N U I d \<Longrightarrow> user_create d u = Inr d' \<Longrightarrow> settled N U I d'"
  by (erule settled_keep) (simp_all add: user_create_Inr)

lemma settled_user_update:
  "settled N U I d \<Longrightarrow> user_update d i f = Inr (u, d') \<Longrightarrow> settled N U I d'"
  by (drule user_update_Inr, erule settled_keep) simp_all

lemma settled_membership_create:
  "settled N U I d \<Longrightarrow> membership_create d m = Inr d' \<Longrightarrow> settled N U I d'"
  by (erule settled_keep) (simp_all add: membership_create_Inr)

lemma settled_membership_delete:
  "settled N U I d \<Longrightarrow> membership_delete d n u = Inr d' \<Longrightarrow> settled N U I d'"
  by (drule membership_delete_Inr, erule settled_keep) simp_all

lemma settled_application_create:
  "settled N U I d \<Longrightarrow> application_create d a = Inr d' \<Longrightarrow> settled N U I d'"
  by (erule settled_keep) (simp_all add: application_create_Inr)

lemma settled_application_update:
  "settled N U I d \<Longrightarrow> application_update d i st = Inr d' \<Longrightarrow> settled N U I d'"
  by (drule application_update_Inr, erule settled_keep) simp_all

lemma settled_network_create:
  "network_create d n = Inr d' \<Longrightarrow> settled N U I d \<Longrightarrow> n_id n \<noteq> N \<Longrightarrow> settled N U I d'"
  by (rule settled_keep [of N U I d]) (auto simp add: network_create_Inr)

lemma settled_network_update:
  "settled N U I d \<Longrightarrow> network_update d i (network_patch b) = Inr (n, d') \<Longrightarrow> settled N U I d'"
  by (drule network_update_Inr, erule settled_keep)
     (auto simp add: network_patch_def split: if_splits)

lemma settled_network_delete:
  "settled N U I d \<Longrightarrow> network_delete d i = Inr d' \<Longrightarrow> settled N U I d'"
  by (drule network_delete_Inr) (auto simp: settled_def)

lemma settled_invitation_create:
  "settled N U I d \<Longrightarrow> invitation_create d x = Inr d' \<Longrightarrow> settled N U I d'"
  by (auto simp: invitation_create_Inr settled_def)

lemma settled_invitation_update:
  "settled N U I d \<Longrightarrow> terminal st \<Longrightarrow> invitation_update d i st = Inr d' \<Longrightarrow> settled N U I d'"
  by (drule invitation_update_Inr) (auto simp: settled_def image_iff split: if_splits)

lemma terminal_lits: "terminal ''accepted''" "terminal ''rejected''"
  by (simp_all add: terminal_def)

lemma signup_settled:
  "settled N U I d \<Longrightarrow> s \<in> set (snd (signup V uid hash now d body)) \<Longrightarrow> settled N U I s"
  by (auto simp: signup_def Let_def split: if_splits option.splits sum.splits
           dest: settled_user_create)

lemma createNetwork_settled:
  "settled N U I d \<Longrightarrow> nid \<noteq> N \<Longrightarrow>
     s \<in> set (snd (createNetwork V nid mid now d caller body)) \<Longrightarrow> settled N U I s"
  by (auto simp: createNetwork_def Let_def split: if_splits option.splits sum.splits
           dest: settled_network_create settled_membership_create)

lemma updateNetwork_settled:
  "settled N U I d \<Longrightarrow> s \<in> set (snd (updateNetwork V d caller nid body)) \<Longrightarrow> settled N U I s"
  by (auto simp: updateNetwork_def Let_def split: if_splits option.splits sum.splits prod.splits
           dest: settled_network_update)

lemma deleteNetwork_settled:
  "settled N U I d \<Longrightarrow> s \<in> set (snd (deleteNetwork d caller nid)) \<Longrightarrow> settled N U I s"
  by (auto simp: deleteNetwork_def Let_def split: if_splits option.splits sum.splits
           dest: settled_network_delete)

lemma inviteUser_settled:
  "settled N U I d \<Longrightarrow> s \<in> set (snd (inviteUser V iid now d caller nid body)) \<Longrightarrow> settled N U I s"
  by (auto simp: inviteUser_def Let_def split: if_splits option.splits sum.splits
           dest: settled_invitation_create)

lemma respondToInvitation_settled:
  "settled N U I d \<Longrightarrow> s \<in> set (snd (respondToInvitation mid now d caller invId action))
     \<Longrightarrow> settled N U I s"
  by (auto simp: respondToInvitation_def Let_def split: if_splits option.splits sum.splits
           dest: settled_membership_create settled_invitation_update [OF _ terminal_lits(1)]
             settled_invitation_update [OF _ terminal_lits(2)])

lemma applyToNetwork_settled:
  "settled N U I d \<Longrightarrow> s \<in> set (snd (applyToNetwork aid now d caller nid message)) \<Longrightarrow> settled N U I s"
  by (auto simp: applyToNetwork_def Let_def split: if_splits option.splits sum.splits
           dest: settled_application_create)

lemma respondToApplication_settled:
  "settled N U I d \<Longrightarrow> s \<in> set (snd (respondToApplication mid now d caller nid appId action))
     \<Longrightarrow> settled N U I s"
  by (auto simp: respondToApplication_def Let_def split: if_splits option.splits sum.splits
           dest: settled_membership_create settled_application_update)

lemma removeMember_settled:
  "settled N U I d \<Longrightarrow> s \<in> set (snd (removeMember d caller nid userId)) \<Longrightarrow> settled N U I s"
  by (auto simp: removeMember_def Let_def split: if_splits option.splits sum.splits
           dest: settled_membership_delete)

lemma updateProfile_settled:
  "settled N U I d \<Longrightarrow> s \<in> set (snd (updateProfile V d caller body)) \<Longrightarrow> settled N U I s"
  by (auto simp: updateProfile_def Let_def split: if_splits option.splits sum.splits prod.splits
           dest: settled_user_update)

lemma writes_settled:
  "settled N U I d \<Longrightarrow> \<not> creates_network N r \<Longrightarrow> s \<in> set (writes V d r) \<Longrightarrow> settled N U I s"
  by (cases r)
     (auto simp: authMiddleware_def split: if_splits
           dest: signup_settled createNetwork_settled updateNetwork_settled
             deleteNetwork_settled inviteUser_settled respondToInvitation_settled
             applyToNetwork_settled respondToApplication_settled removeMember_settled
             updateProfile_settled)

lemma exec_settled:
  "settled N U I d \<Longrightarrow> \<not> creates_network N r \<Longrightarrow> settled N U I (exec V d r)"
  using exec_cases [of V d r] by (auto dest: writes_settled)

lemma run_settled:
  "settled N U I d \<Longrightarrow> \<forall>r \<in> set rs. \<not> creates_network N r \<Longrightarrow> settled N U I (run V d rs)"
  unfolding run_def by (induction rs arbitrary: d) (simp_all add: exec_settled)

section \<open>The concrete history can be seen\<close>

lemma obs_users: "observable V0 db_users"
  unfolding db_users_def by (intro observable_run observable.initial)

lemma obs_net: "observable V0 db_net"
  unfolding db_net_def by (intro observable_exec obs_users)

lemma obs_invited: "observable V0 db_invited"
  unfolding db_invited_def by (intro observable_exec obs_net)

lemma obs_accepted: "observable V0 db_accepted"
  unfolding db_accepted_def by (intro observable_exec obs_invited)

lemma obs_rejected: "observable V0 db_rejected"
  unfolding db_rejected_def by (intro observable_exec obs_invited)

lemma obs_applied: "observable V0 db_applied"
  unfolding db_applied_def by (intro observable_run obs_invited)

section \<open>The claims\<close>

text \<open>
  Claim C1. The invited user accepts an invitation to a network in which that user already
  holds a membership. The route attempts the insert of the membership first; it fails on
  the unique index of (networkId, userId) (on the primary key when the identifier of the
  new row is in use). The route makes no write, so the store, and with it the status of the
  invitation, is as before the call. The route has no \<^verbatim>\<open>try/catch\<close>: the error escapes
  the handler and the route sends no reply, with no status at all, where the claim has a
  Conflict reported to the caller. The routes that invite and apply catch the errors of
  the store and answer 400.
\<close>

theorem accept_already_member_unreported:
  assumes "invitation_findUnique d invId = Some invitation"
    and "invitedUserId invitation = caller"
    and "membership_findUnique d (i_networkId invitation) caller = Some m"
  shows "respondToInvitation mid now d caller invId ''accept'' =
           (Thrown (UniqueConstraint
              (if mid \<in> set (map m_id (memberships d)) then ''NetworkMembership_pkey''
               else ''NetworkMembership_networkId_userId_key'')), []) \<and>
         (\<forall>c b. fst (respondToInvitation mid now d caller invId ''accept'') \<noteq> Status c b) \<and>
         exec V d (RespondToInvitation mid now caller invId ''accept'') = d \<and>
         invitation_findUnique (exec V d (RespondToInvitation mid now caller invId ''accept''))
           invId = Some invitation"
proof -
  have r: "respondToInvitation mid now d caller invId ''accept'' =
           (Thrown (UniqueConstraint
              (if mid \<in> set (map m_id (memberships d)) then ''NetworkMembership_pkey''
               else ''NetworkMembership_networkId_userId_key'')), [])"
    using assms by (simp add: respondToInvitation_def membership_create_def)
  have e: "exec V d (RespondToInvitation mid now caller invId ''accept'') = d"
    by (simp add: exec_def authMiddleware_def r)
  show ?thesis using r e assms(1) by simp
qed

theorem accept_already_member_unreported_witness:
  "invitation_findUnique db_accepted ''i1'' =
     Some \<lparr>i_id = ''i1'', i_networkId = ''n1'', invitedUserId = ''u2'', inviterId = ''u1'',
           i_status = ''accepted'', i_message = None, i_createdAt = 6\<rparr> \<and>
   membership_findUnique db_accepted ''n1'' ''u2'' =
     Some \<lparr>m_id = ''m3'', m_networkId = ''n1'', m_userId = ''u2'', m_role = ''member'',
           m_status = ''active'', joinedAt = 8\<rparr> \<and>
   respondToInvitation ''m4'' 11 db_accepted ''u2'' ''i1'' ''accept'' =
     (Thrown (UniqueConstraint ''NetworkMembership_networkId_userId_key''), []) \<and>
   exec V0 db_accepted (RespondToInvitation ''m4'' 11 ''u2'' ''i1'' ''accept'') = db_accepted \<and>
   applyToNetwork ''a4'' 11 db_accepted ''u2'' ''n1'' None =
     (Status 400 (Msg ''Already member''), []) \<and>
   inviteUser V0 ''i2'' 11 db_rejected ''u1'' ''n1''
       \<lparr>b_userId = Some ''u2'', b_inviteMessage = None\<rparr> =
     (Status 400
        (ExnMessage (UniqueConstraint ''NetworkInvitation_networkId_invitedUserId_key'')), [])"
proof -
  let ?i = "\<lparr>i_id = ''i1'', i_networkId = ''n1'', invitedUserId = ''u2'', inviterId = ''u1'',
           i_status = ''accepted'', i_message = None, i_createdAt = 6\<rparr>"
  let ?m = "\<lparr>m_id = ''m3'', m_networkId = ''n1'', m_userId = ''u2'', m_role = ''member'',
           m_status = ''active'', joinedAt = 8\<rparr>"
  have h1: "invitation_findUnique db_accepted ''i1'' = Some ?i" by code_simp
  have h2: "invitedUserId ?i = ''u2''" by simp
  have h3: "membership_findUnique db_accepted (i_networkId ?i) ''u2'' = Some ?m" by code_simp
  have h4: "''m4'' \<notin> set (map m_id (memberships db_accepted))" by code_simp
  have s1: "applyToNetwork ''a4'' 11 db_accepted ''u2'' ''n1'' None =
     (Status 400 (Msg ''Already member''), [])" by code_simp
  have s2: "inviteUser V0 ''i2'' 11 db_rejected ''u1'' ''n1''
       \<lparr>b_userId = Some ''u2'', b_inviteMessage = None\<rparr> =
     (Status 400
        (ExnMessage (UniqueConstraint ''NetworkInvitation_networkId_invitedUserId_key'')), [])"
    by code_simp
  from accept_already_member_unreported [OF h1 h2 h3, of "''m4''" 11 V0] h1 h3 h4 s1 s2
  show ?thesis by simp
qed

text \<open>
  Claim C2, as amended. For a caller that is a user of the store, a body that passes the
  schema and fresh identifiers, in a store that satisfies the constraints, the creation
  route succeeds with two writes. After the first the network is stored and no membership
  refers to it; after the second the only membership of the network is the caller's, with
  role owner and status active. The two writes are two store calls, not one transaction.
\<close>

theorem createNetwork_owner_membership:
  assumes "integrity d"
    and "user_findUnique d caller = Some u"
    and "networkSchema V body"
    and "nid \<notin> set (map n_id (networks d))"
    and "mid \<notin> set (map m_id (memberships d))"
  shows "\<exists>network d1 d2.
           createNetwork V nid mid now d caller body = (Json network, [d1, d2]) \<and>
           n_id network = nid \<and> ownerId network = caller \<and>
           network_findUnique d1 nid = Some network \<and>
           filter (\<lambda>m. m_networkId m = nid) (memberships d1) = [] \<and>
           network_findUnique d2 nid = Some network \<and>
           filter (\<lambda>m. m_networkId m = nid) (memberships d2) =
             [\<lparr>m_id = mid, m_networkId = nid, m_userId = caller, m_role = ''owner'',
               m_status = ''active'', joinedAt = now\<rparr>]"
proof -
  let ?n = "\<lparr>n_id = nid, n_name = the (b_name body), n_description = b_description body,
             ownerId = caller, n_themes = the (b_themes body), n_logoUrl = b_logoUrl body,
             n_createdAt = now\<rparr>"
  let ?m = "\<lparr>m_id = mid, m_networkId = nid, m_userId = caller, m_role = ''owner'',
             m_status = ''active'', joinedAt = now\<rparr>"
  let ?d1 = "d\<lparr>networks := networks d @ [?n]\<rparr>"
  let ?d2 = "?d1\<lparr>memberships := memberships d @ [?m]\<rparr>"
  have u: "caller \<in> u_id ` set (users d)"
    using assms(2) unfolding user_findUnique_def by (rule find_key_Some_mem)
  have none: "\<forall>m \<in> set (memberships d). m_networkId m \<noteq> nid"
    using assms(1,4) by (auto simp: integrity_def foreign_keys_def)
  then have f0: "filter (\<lambda>m. m_networkId m = nid) (memberships d) = []"
    by (simp add: filter_empty_conv)
  have c1: "network_create d ?n = Inr ?d1"
    using assms(4) u by (simp add: network_create_Inr)
  have pair: "(nid, caller) \<notin> (\<lambda>x. (m_networkId x, m_userId x)) ` set (memberships d)"
    using none by auto
  have c2: "membership_create ?d1 ?m = Inr ?d2"
    using assms(5) u pair by (simp add: membership_create_Inr)
  have "find (\<lambda>n. n_id n = nid) (networks d) = None"
    using assms(4) by (simp add: find_key_None)
  then have fn: "find (\<lambda>n. n_id n = nid) (networks d @ [?n]) = Some ?n"
    by (simp add: find_append_conv)
  have r: "createNetwork V nid mid now d caller body = (Json ?n, [?d1, ?d2])"
    using assms(3) c1 c2 by (simp add: createNetwork_def Let_def)
  show ?thesis
    by (intro exI [of _ ?n] exI [of _ ?d1] exI [of _ ?d2])
       (simp add: r f0 fn network_findUnique_def)
qed

theorem createNetwork_owner_membership_witness:
  "integrity db_users \<and>
   networkSchema V0 body_tech \<and>
   fst (createNetwork V0 ''n1'' ''m1'' 4 db_users ''u1'' body_tech) =
     Json \<lparr>n_id = ''n1'', n_name = ''Tech'', n_description = None, ownerId = ''u1'',
            n_themes = [''tech''], n_logoUrl = None, n_createdAt = 4\<rparr> \<and>
   (\<exists>network d1 d2.
      createNetwork V0 ''n1'' ''m1'' 4 db_users ''u1'' body_tech = (Json network, [d1, d2]) \<and>
      filter (\<lambda>m. m_networkId m = ''n1'') (memberships d2) =
        [\<lparr>m_id = ''m1'', m_networkId = ''n1'', m_userId = ''u1'', m_role = ''owner'',
          m_status = ''active'', joinedAt = 4\<rparr>])"
proof -
  let ?u = "\<lparr>u_id = ''u1'', email = ''a@x'', passwordHash = ''h1'', displayName = ''a'',
             bio = None, phone = None, contactEmail = None, u_socialLinks = None,
             isPublicProfile = False, u_createdAt = 1\<rparr>"
  have h1: "integrity db_users" by code_simp
  have h2: "user_findUnique db_users ''u1'' = Some ?u" by code_simp
  have h3: "networkSchema V0 body_tech" by code_simp
  have h4: "''n1'' \<notin> set (map n_id (networks db_users))" by code_simp
  have h5: "''m1'' \<notin> set (map m_id (memberships db_users))" by code_simp
  have f: "fst (createNetwork V0 ''n1'' ''m1'' 4 db_users ''u1'' body_tech) =
     Json \<lparr>n_id = ''n1'', n_name = ''Tech'', n_description = None, ownerId = ''u1'',
            n_themes = [''tech''], n_logoUrl = None, n_createdAt = 4\<rparr>" by code_simp
  from createNetwork_owner_membership [OF h1 h2 h3 h4 h5, of 4] h1 h3 f
  show ?thesis by blast
qed

text \<open>
  The claim as first stated, with the membership created in one transaction with the
  network, fails here: the first write of the creation route is a state that can be seen,
  it differs from the final one, and in it the network \<open>n1\<close> is stored while no
  membership refers to it.
\<close>

theorem createNetwork_two_writes_counterexample:
  "observable V0 (hd (writes V0 db_users r_create1)) \<and>
   hd (writes V0 db_users r_create1) \<noteq> exec V0 db_users r_create1 \<and>
   network_findUnique (hd (writes V0 db_users r_create1)) ''n1'' =
     Some \<lparr>n_id = ''n1'', n_name = ''Tech'', n_description = None, ownerId = ''u1'',
            n_themes = [''tech''], n_logoUrl = None, n_createdAt = 4\<rparr> \<and>
   filter (\<lambda>m. m_networkId m = ''n1'') (memberships (hd (writes V0 db_users r_create1))) = []"
proof -
  have m: "hd (writes V0 db_users r_create1) \<in> set (writes V0 db_users r_create1)"
    by code_simp
  have o: "observable V0 (hd (writes V0 db_users r_create1))"
    by (rule observable.written [OF obs_users m])
  have a: "hd (writes V0 db_users r_create1) \<noteq> exec V0 db_users r_create1" by code_simp
  have b: "network_findUnique (hd (writes V0 db_users r_create1)) ''n1'' =
     Some \<lparr>n_id = ''n1'', n_name = ''Tech'', n_description = None, ownerId = ''u1'',
            n_themes = [''tech''], n_logoUrl = None, n_createdAt = 4\<rparr>" by code_simp
  have c: "filter (\<lambda>m. m_networkId m = ''n1'') (memberships (hd (writes V0 db_users r_create1))) = []"
    by code_simp
  from o a b c show ?thesis by simp
qed

text \<open>
  Claim C3. In every state of the store that can be seen (after any sequence of requests to
  any of the routes, the states between the two writes of one request included), at most
  one membership row exists for a pair of a network and a user.
\<close>

theorem membership_pair_unique:
  assumes "observable V d"
  shows "length (filter (\<lambda>m. m_networkId m = n \<and> m_userId m = u) (memberships d)) \<le> 1"
proof -
  have "distinct (map (\<lambda>m. (m_networkId m, m_userId m)) (memberships d))"
    using observable_integrity [OF assms] by (simp add: integrity_def unique_keys_def)
  from distinct_key_filter_le1 [OF this, of "(n, u)"] show ?thesis by simp
qed

theorem membership_pair_unique_witness:
  "observable V0 db_accepted \<and>
   length (filter (\<lambda>m. m_networkId m = ''n1'' \<and> m_userId m = ''u2'') (memberships db_accepted)) \<le> 1 \<and>
   length (filter (\<lambda>m. m_networkId m = ''n1'' \<and> m_userId m = ''u2'') (memberships db_accepted)) = 1"
proof -
  have "length (filter (\<lambda>m. m_networkId m = ''n1'' \<and> m_userId m = ''u2'') (memberships db_accepted)) = 1"
    by code_simp
  with obs_accepted membership_pair_unique [OF obs_accepted, of "''n1''" "''u2''"]
  show ?thesis by simp
qed

text \<open>
  Claim C4. The owner of a network invites a user with a body that passes the schema. If
  an invitation of the network to that user is stored, whatever its status, or if the user
  holds a membership of the network, the route answers 400: with the message that the
  user is a member already when that is so, otherwise with the message of the error of the
  unique index of (networkId, invitedUserId) (of the primary key when the identifier of
  the new row is in use). It writes nothing, so no invitation is created.
\<close>

theorem invite_existing_pair_conflict:
  assumes "network_findUnique d nid = Some network"
    and "ownerId network = caller"
    and "invitationSchema V body"
    and "b_userId body = Some U"
    and "(\<exists>x \<in> set (invitations d). i_networkId x = nid \<and> invitedUserId x = U) \<or>
         (\<exists>m \<in> set (memberships d). m_networkId m = nid \<and> m_userId m = U)"
  shows "inviteUser V iid now d caller nid body =
           (Status 400
              (if membership_findUnique d nid U \<noteq> None then Msg ''User already member''
               else ExnMessage (UniqueConstraint
                 (if iid \<in> set (map i_id (invitations d)) then ''NetworkInvitation_pkey''
                  else ''NetworkInvitation_networkId_invitedUserId_key''))), []) \<and>
         exec V d (InviteUser iid now caller nid body) = d"
proof -
  have r: "inviteUser V iid now d caller nid body =
           (Status 400
              (if membership_findUnique d nid U \<noteq> None then Msg ''User already member''
               else ExnMessage (UniqueConstraint
                 (if iid \<in> set (map i_id (invitations d)) then ''NetworkInvitation_pkey''
                  else ''NetworkInvitation_networkId_invitedUserId_key''))), [])"
  proof (cases "membership_findUnique d nid U")
    case (Some m)
    then show ?thesis using assms(1-4) by (simp add: inviteUser_def)
  next
    case None
    then have "\<not> (\<exists>m \<in> set (memberships d). m_networkId m = nid \<and> m_userId m = U)"
      by (simp add: membership_findUnique_def find_None_iff)
    with assms(5) have "\<exists>x \<in> set (invitations d). i_networkId x = nid \<and> invitedUserId x = U"
      by blast
    then have "find (\<lambda>y. i_networkId y = nid \<and> invitedUserId y = U) (invitations d) \<noteq> None"
      by (simp add: find_None_iff) blast
    with None show ?thesis using assms(1-4)
      by (simp add: inviteUser_def invitation_create_def)
  qed
  show ?thesis by (simp add: exec_def authMiddleware_def r)
qed

theorem invite_existing_pair_conflict_witness:
  "map i_status (invitations db_rejected) = [''rejected''] \<and>
   inviteUser V0 ''i2'' 11 db_rejected ''u1'' ''n1''
       \<lparr>b_userId = Some ''u2'', b_inviteMessage = None\<rparr> =
     (Status 400
        (ExnMessage (UniqueConstraint ''NetworkInvitation_networkId_invitedUserId_key'')), []) \<and>
   inviteUser V0 ''i2'' 11 db_rejected ''u1'' ''n1''
       \<lparr>b_userId = Some ''u1'', b_inviteMessage = None\<rparr> =
     (Status 400 (Msg ''User already member''), []) \<and>
   exec V0 db_rejected (InviteUser ''i2'' 11 ''u1'' ''n1''
       \<lparr>b_userId = Some ''u2'', b_inviteMessage = None\<rparr>) = db_rejected"
proof -
  let ?n = "\<lparr>n_id = ''n1'', n_name = ''Tech'', n_description = None, ownerId = ''u1'',
            n_themes = [''tech''], n_logoUrl = None, n_createdAt = 4\<rparr>"
  let ?b2 = "\<lparr>b_userId = Some ''u2'', b_inviteMessage = None\<rparr>"
  let ?b1 = "\<lparr>b_userId = Some ''u1'', b_inviteMessage = None\<rparr>"
  have s: "map i_status (invitations db_rejected) = [''rejected'']" by code_simp
  have h1: "network_findUnique db_rejected ''n1'' = Some ?n" by code_simp
  have h2: "ownerId ?n = ''u1''" by simp
  have h3: "invitationSchema V0 ?b2" "invitationSchema V0 ?b1" by code_simp+
  have h4: "b_userId ?b2 = Some ''u2''" "b_userId ?b1 = Some ''u1''" by simp_all
  have h5: "(\<exists>x \<in> set (invitations db_rejected). i_networkId x = ''n1'' \<and> invitedUserId x = ''u2'') \<or>
         (\<exists>m \<in> set (memberships db_rejected). m_networkId m = ''n1'' \<and> m_userId m = ''u2'')"
    by code_simp
  have h6: "(\<exists>x \<in> set (invitations db_rejected). i_networkId x = ''n1'' \<and> invitedUserId x = ''u1'') \<or>
         (\<exists>m \<in> set (memberships db_rejected). m_networkId m = ''n1'' \<and> m_userId m = ''u1'')"
    by code_simp
  have e1: "membership_findUnique db_rejected ''n1'' ''u2'' = None" by code_simp
  have e2: "membership_findUnique db_rejected ''n1'' ''u1'' \<noteq> None" by code_simp
  have e3: "''i2'' \<notin> set (map i_id (invitations db_rejected))" by code_simp
  from invite_existing_pair_conflict [OF h1 h2 h3(1) h4(1) h5, of "''i2''" 11]
    invite_existing_pair_conflict [OF h1 h2 h3(2) h4(2) h6, of "''i2''" 11]
    s e1 e2 e3
  show ?thesis by simp
qed

text \<open>
  Claim C5, as amended. Let an invitation with status accepted or rejected be stored, in a
  store that satisfies the constraints. After any sequence of requests in which no network
  is created under the identifier of the invitation's network (the store gives a new
  network an identifier of its own), every invitation of the same network to the same user
  is that same row, and its status is accepted or rejected: it is never pending again, and
  the pair has no second invitation. The status can still change between rejected and
  accepted, since the route does not read it.
\<close>

theorem terminal_invitation_final:
  assumes "integrity d"
    and "x \<in> set (invitations d)"
    and "terminal (i_status x)"
    and "\<forall>r \<in> set rs. \<not> creates_network (i_networkId x) r"
  shows "\<forall>y \<in> set (invitations (run V d rs)).
           i_networkId y = i_networkId x \<and> invitedUserId y = invitedUserId x \<longrightarrow>
           i_id y = i_id x \<and> terminal (i_status y)"
proof -
  have dist: "distinct (map (\<lambda>y. (i_networkId y, invitedUserId y)) (invitations d))"
    using assms(1) by (simp add: integrity_def unique_keys_def)
  have "y = x" if "y \<in> set (invitations d)" "i_networkId y = i_networkId x"
    "invitedUserId y = invitedUserId x" for y
    using distinct_pair_same [OF dist assms(2) that(1)] that(2,3) by simp
  then have "settled (i_networkId x) (invitedUserId x) (i_id x) d"
    using assms(2,3) by (auto simp: settled_def)
  from run_settled [OF this assms(4)] show ?thesis
    by (simp add: settled_def)
qed

theorem terminal_invitation_final_witness:
  "integrity db_rejected \<and>
   invitations db_rejected =
     [\<lparr>i_id = ''i1'', i_networkId = ''n1'', invitedUserId = ''u2'', inviterId = ''u1'',
       i_status = ''rejected'', i_message = None, i_createdAt = 6\<rparr>] \<and>
   invitations (run V0 db_rejected
      [InviteUser ''i2'' 11 ''u1'' ''n1'' \<lparr>b_userId = Some ''u2'', b_inviteMessage = None\<rparr>,
       r_accept]) =
     [\<lparr>i_id = ''i1'', i_networkId = ''n1'', invitedUserId = ''u2'', inviterId = ''u1'',
       i_status = ''accepted'', i_message = None, i_createdAt = 6\<rparr>] \<and>
   terminal (i_status (hd (invitations (run V0 db_rejected
      [InviteUser ''i2'' 11 ''u1'' ''n1'' \<lparr>b_userId = Some ''u2'', b_inviteMessage = None\<rparr>,
       r_accept]))))"
proof -
  let ?x = "\<lparr>i_id = ''i1'', i_networkId = ''n1'', invitedUserId = ''u2'', inviterId = ''u1'',
       i_status = ''rejected'', i_message = None, i_createdAt = 6\<rparr>"
  let ?y = "\<lparr>i_id = ''i1'', i_networkId = ''n1'', invitedUserId = ''u2'', inviterId = ''u1'',
       i_status = ''accepted'', i_message = None, i_createdAt = 6\<rparr>"
  let ?rs = "[InviteUser ''i2'' 11 ''u1'' ''n1'' \<lparr>b_userId = Some ''u2'', b_inviteMessage = None\<rparr>,
       r_accept]"
  have h1: "integrity db_rejected" by code_simp
  have i0: "invitations db_rejected = [?x]" by code_simp
  have h2: "?x \<in> set (invitations db_rejected)" by (simp add: i0)
  have h3: "terminal (i_status ?x)" by (simp add: terminal_def)
  have h4: "\<forall>r \<in> set ?rs. \<not> creates_network (i_networkId ?x) r"
    by (simp add: r_accept_def)
  have i1: "invitations (run V0 db_rejected ?rs) = [?y]" by code_simp
  from terminal_invitation_final [OF h1 h2 h3 h4, of V0] i1
  have "terminal (i_status (hd (invitations (run V0 db_rejected ?rs))))" by simp
  with h1 i0 i1 show ?thesis by simp
qed

text \<open>
  The claim as first stated, with a rejected invitation never accepted later, fails here:
  the invited user accepts the invitation that they rejected; the request succeeds, the
  status becomes accepted and the user holds a membership of the network. An accepted
  invitation can be rejected as well.
\<close>

theorem rejected_then_accepted_counterexample:
  "map i_status (invitations db_rejected) = [''rejected''] \<and>
   membership_findUnique db_rejected ''n1'' ''u2'' = None \<and>
   fst (respondToInvitation ''m3'' 8 db_rejected ''u2'' ''i1'' ''accept'') = Json () \<and>
   map i_status (invitations (exec V0 db_rejected r_accept)) = [''accepted''] \<and>
   membership_findUnique (exec V0 db_rejected r_accept) ''n1'' ''u2'' =
     Some \<lparr>m_id = ''m3'', m_networkId = ''n1'', m_userId = ''u2'', m_role = ''member'',
           m_status = ''active'', joinedAt = 8\<rparr> \<and>
   map i_status (invitations db_accepted) = [''accepted''] \<and>
   map i_status (invitations (exec V0 db_accepted r_reject)) = [''rejected'']"
  by code_simp

text \<open>
  Claim C6, as amended. Viewing the profile of a user that does not exist answers 404.
  Viewing the profile of a user whose profile is not public returns an object without the
  phone and contactEmail properties, whoever sent the request, the user themselves
  included: the route does not read the identity of the requester.
\<close>

theorem viewProfile_private_hidden:
  "(user_findUnique d uid = None \<longrightarrow> viewProfile d viewer uid = Status 404 (Msg ''User not found'')) \<and>
   (\<forall>u. user_findUnique d uid = Some u \<and> \<not> isPublicProfile u \<longrightarrow>
      (\<exists>p. viewProfile d viewer uid = Json p \<and> p_phone p = None \<and> p_contactEmail p = None \<and>
           p_id p = uid))"
  by (auto simp: viewProfile_def user_findUnique_def dest: find_SomeD)

theorem viewProfile_private_hidden_witness:
  "user_findUnique db_profile ''u9'' = None \<and>
   viewProfile db_profile (Some ''u2'') ''u9'' = Status 404 (Msg ''User not found'') \<and>
   map_option isPublicProfile (user_findUnique db_profile ''u1'') = Some False \<and>
   (\<exists>p. viewProfile db_profile (Some ''u2'') ''u1'' = Json p \<and> p_phone p = None \<and>
        p_contactEmail p = None \<and> p_id p = ''u1'')"
proof -
  let ?u = "\<lparr>u_id = ''u1'', email = ''a@x'', passwordHash = ''h1'', displayName = ''a'',
             bio = None, phone = Some ''555'', contactEmail = Some ''a@biz'',
             u_socialLinks = None, isPublicProfile = False, u_createdAt = 1\<rparr>"
  have h1: "user_findUnique db_profile ''u9'' = None" by code_simp
  have h2: "user_findUnique db_profile ''u1'' = Some ?u" by code_simp
  from viewProfile_private_hidden [of db_profile "''u9''" "Some ''u2''"]
    viewProfile_private_hidden [of db_profile "''u1''" "Some ''u2''"] h1 h2
  show ?thesis by simp
qed

text \<open>
  The claim as first stated, with the owner of a profile that is not public seeing their
  own phone and contactEmail, fails here: the user \<open>u1\<close> has both fields stored, views
  their own profile, and the object has neither property.
\<close>

theorem viewProfile_owner_counterexample:
  "user_findUnique db_profile ''u1'' =
     Some \<lparr>u_id = ''u1'', email = ''a@x'', passwordHash = ''h1'', displayName = ''a'',
           bio = None, phone = Some ''555'', contactEmail = Some ''a@biz'',
           u_socialLinks = None, isPublicProfile = False, u_createdAt = 1\<rparr> \<and>
   viewProfile db_profile (Some ''u1'') ''u1'' =
     Json \<lparr>p_id = ''u1'', p_displayName = ''a'', p_bio = None, p_phone = None,
           p_contactEmail = None, p_socialLinks = None, p_isPublicProfile = False,
           p_createdAt = 1\<rparr>"
  by code_simp

text \<open>
  Claim C7. The owner deletes a network. The route succeeds with a single write, after
  which the network is not found and no membership, invitation or application refers to
  it: the rows are removed together with the network, in the same store call.
\<close>

theorem deleteNetwork_cascade:
  assumes "network_findUnique d X = Some network" and "ownerId network = caller"
  shows "\<exists>s. deleteNetwork d caller X = (Json (), [s]) \<and>
           network_findUnique s X = None \<and>
           filter (\<lambda>m. m_networkId m = X) (memberships s) = [] \<and>
           filter (\<lambda>i. i_networkId i = X) (invitations s) = [] \<and>
           filter (\<lambda>a. a_networkId a = X) (applications s) = [] \<and>
           users s = users d"
  using assms
  by (simp add: deleteNetwork_def network_delete_def network_findUnique_def find_None_iff
        filter_empty_conv)

theorem deleteNetwork_cascade_witness:
  "map i_networkId (invitations db_applied) = [''n1''] \<and>
   map a_networkId (applications db_applied) = [''n2'', ''n1''] \<and>
   map m_networkId (memberships db_applied) = [''n1'', ''n2''] \<and>
   (\<exists>s. deleteNetwork db_applied ''u1'' ''n1'' = (Json (), [s]) \<and>
        network_findUnique s ''n1'' = None \<and>
        filter (\<lambda>m. m_networkId m = ''n1'') (memberships s) = [] \<and>
        filter (\<lambda>i. i_networkId i = ''n1'') (invitations s) = [] \<and>
        filter (\<lambda>a. a_networkId a = ''n1'') (applications s) = [] \<and>
        users s = users db_applied)"
proof -
  let ?n = "\<lparr>n_id = ''n1'', n_name = ''Tech'', n_description = None, ownerId = ''u1'',
            n_themes = [''tech''], n_logoUrl = None, n_createdAt = 4\<rparr>"
  have h1: "network_findUnique db_applied ''n1'' = Some ?n" by code_simp
  have h2: "ownerId ?n = ''u1''" by simp
  have a: "map i_networkId (invitations db_applied) = [''n1'']" by code_simp
  have b: "map a_networkId (applications db_applied) = [''n2'', ''n1'']" by code_simp
  have c: "map m_networkId (memberships db_applied) = [''n1'', ''n2'']" by code_simp
  from deleteNetwork_cascade [OF h1 h2] a b c show ?thesis by simp
qed

text \<open>
  Claim C8. Removing a member: when the network does not exist the route answers 404; when
  the caller is not the owner of the network it answers 403; when the owner names
  themselves it answers 400. None of these cases writes to the store. When the named user
  has a membership of the network, the route succeeds with one write that removes exactly
  that row. When the named user has no membership of the network, nothing is written, but
  the route does not look the membership up and has no \<^verbatim>\<open>try/catch\<close>: the delete of the
  store throws the error of a row that is not found, the error escapes the handler and the
  route sends no reply, where the claim has NotFound.
\<close>

theorem removeMember_outcomes:
  "(network_findUnique d nid = None \<longrightarrow>
      removeMember d caller nid uid = (Status 404 (Msg ''Network not found''), [])) \<and>
   (\<forall>network. network_findUnique d nid = Some network \<longrightarrow>
      (ownerId network \<noteq> caller \<longrightarrow>
         removeMember d caller nid uid = (Status 403 (Msg ''Not authorized''), [])) \<and>
      (ownerId network = caller \<and> uid = caller \<longrightarrow>
         removeMember d caller nid uid = (Status 400 (Msg ''Cannot remove yourself''), [])) \<and>
      (ownerId network = caller \<and> uid \<noteq> caller \<and> membership_findUnique d nid uid = None \<longrightarrow>
         removeMember d caller nid uid = (Thrown RecordNotFound, []) \<and>
         (\<forall>c b. fst (removeMember d caller nid uid) \<noteq> Status c b)) \<and>
      (\<forall>m. ownerId network = caller \<and> uid \<noteq> caller \<and> integrity d \<and>
           membership_findUnique d nid uid = Some m \<longrightarrow>
         removeMember d caller nid uid =
           (Json (), [d\<lparr>memberships := remove1 m (memberships d)\<rparr>])))"
proof -
  have "filter (\<lambda>x. \<not> (m_networkId x = nid \<and> m_userId x = uid)) (memberships d)
          = remove1 m (memberships d)"
    if "integrity d" and "membership_findUnique d nid uid = Some m" for m
    using that
    by (intro filter_pair_remove1) (simp_all add: integrity_def unique_keys_def membership_findUnique_def)
  then show ?thesis
    by (simp add: removeMember_def membership_delete_def)
qed

theorem removeMember_outcomes_witness:
  "removeMember db_accepted ''u1'' ''n9'' ''u2'' = (Status 404 (Msg ''Network not found''), []) \<and>
   removeMember db_accepted ''u2'' ''n1'' ''u1'' = (Status 403 (Msg ''Not authorized''), []) \<and>
   removeMember db_accepted ''u1'' ''n1'' ''u1'' = (Status 400 (Msg ''Cannot remove yourself''), []) \<and>
   removeMember db_accepted ''u1'' ''n1'' ''u3'' = (Thrown RecordNotFound, []) \<and>
   map m_userId (memberships db_accepted) = [''u1'', ''u2''] \<and>
   fst (removeMember db_accepted ''u1'' ''n1'' ''u2'') = Json () \<and>
   map (map m_userId \<circ> memberships) (snd (removeMember db_accepted ''u1'' ''n1'' ''u2''))
     = [[''u1'']]"
proof -
  let ?n = "\<lparr>n_id = ''n1'', n_name = ''Tech'', n_description = None, ownerId = ''u1'',
            n_themes = [''tech''], n_logoUrl = None, n_createdAt = 4\<rparr>"
  let ?m = "\<lparr>m_id = ''m3'', m_networkId = ''n1'', m_userId = ''u2'', m_role = ''member'',
           m_status = ''active'', joinedAt = 8\<rparr>"
  have n9: "network_findUnique db_accepted ''n9'' = None" by code_simp
  have n1: "network_findUnique db_accepted ''n1'' = Some ?n" by code_simp
  have i: "integrity db_accepted" by code_simp
  have m3: "membership_findUnique db_accepted ''n1'' ''u3'' = None" by code_simp
  have m2: "membership_findUnique db_accepted ''n1'' ''u2'' = Some ?m" by code_simp
  have ms: "map m_userId (memberships db_accepted) = [''u1'', ''u2'']" by code_simp
  have rm: "map m_userId (remove1 ?m (memberships db_accepted)) = [''u1'']" by code_simp
  from removeMember_outcomes [of db_accepted "''n9''" "''u1''" "''u2''"] n9
  have a: "removeMember db_accepted ''u1'' ''n9'' ''u2'' = (Status 404 (Msg ''Network not found''), [])"
    by simp
  from removeMember_outcomes [of db_accepted "''n1''" "''u2''" "''u1''"] n1
  have b: "removeMember db_accepted ''u2'' ''n1'' ''u1'' = (Status 403 (Msg ''Not authorized''), [])"
    by simp
  from removeMember_outcomes [of db_accepted "''n1''" "''u1''" "''u1''"] n1
  have c: "removeMember db_accepted ''u1'' ''n1'' ''u1'' = (Status 400 (Msg ''Cannot remove yourself''), [])"
    by simp
  from removeMember_outcomes [of db_accepted "''n1''" "''u1''" "''u3''"] n1 m3
  have d: "removeMember db_accepted ''u1'' ''n1'' ''u3'' = (Thrown RecordNotFound, [])"
    by simp
  from removeMember_outcomes [of db_accepted "''n1''" "''u1''" "''u2''"] n1 m2 i
  have e: "removeMember db_accepted ''u1'' ''n1'' ''u2'' =
     (Json (), [db_accepted\<lparr>memberships := remove1 ?m (memberships db_accepted)\<rparr>])"
    by simp
  from a b c d e ms rm show ?thesis by simp
qed

text \<open>
  Claim C9, as amended. The route that answers an application checks the ownership of the
  network named in the path and looks the application up by its identifier alone. Let the
  caller own the network \<open>X\<close> and let the application belong to another network. If the
  applicant holds no membership of \<open>X\<close> (and the identifier of the new row is fresh, in a
  store that satisfies the constraints), approving through the path of \<open>X\<close> succeeds: a
  membership of the applicant in \<open>X\<close> is added, the status of the application becomes
  approved, and the applicant's membership of the application's own network is as
  before.
\<close>

theorem approve_via_other_network:
  assumes "integrity d"
    and "network_findUnique d X = Some network"
    and "ownerId network = caller"
    and "application_findUnique d appId = Some application"
    and "a_networkId application \<noteq> X"
    and "membership_findUnique d X (applicantId application) = None"
    and "mid \<notin> set (map m_id (memberships d))"
  shows "\<exists>d1 d2.
           respondToApplication mid now d caller X appId ''approve'' = (Json (), [d1, d2]) \<and>
           memberships d2 = memberships d @
             [\<lparr>m_id = mid, m_networkId = X, m_userId = applicantId application,
               m_role = ''member'', m_status = ''active'', joinedAt = now\<rparr>] \<and>
           application_findUnique d2 appId = Some (application\<lparr>a_status := ''approved''\<rparr>) \<and>
           membership_findUnique d2 (a_networkId application) (applicantId application) =
             membership_findUnique d (a_networkId application) (applicantId application)"
proof -
  let ?m = "\<lparr>m_id = mid, m_networkId = X, m_userId = applicantId application,
             m_role = ''member'', m_status = ''active'', joinedAt = now\<rparr>"
  let ?d1 = "d\<lparr>memberships := memberships d @ [?m]\<rparr>"
  let ?g = "\<lambda>y. if a_id y = appId then y\<lparr>a_status := ''approved''\<rparr> else y"
  let ?d2 = "?d1\<lparr>applications := map ?g (applications d)\<rparr>"
  from assms(4) have a: "application \<in> set (applications d)"
    by (auto simp: application_findUnique_def dest: find_SomeD)
  with assms(1) have u: "applicantId application \<in> u_id ` set (users d)"
    by (auto simp: integrity_def foreign_keys_def)
  from assms(2) have n: "X \<in> n_id ` set (networks d)"
    unfolding network_findUnique_def by (rule find_key_Some_mem)
  from assms(6) have p: "(X, applicantId application)
      \<notin> (\<lambda>x. (m_networkId x, m_userId x)) ` set (memberships d)"
    by (simp add: membership_findUnique_def find_pair_None)
  have c1: "membership_create d ?m = Inr ?d1"
    using assms(7) u n p by (simp add: membership_create_Inr)
  have fa: "find (\<lambda>x. a_id x = appId) (map ?g (applications d))
              = map_option (\<lambda>y. y\<lparr>a_status := ''approved''\<rparr>)
                  (find (\<lambda>x. a_id x = appId) (applications d))"
    by (rule find_key_update) simp
  have c2: "application_update ?d1 appId ''approved'' = Inr ?d2"
    using assms(4) by (simp add: application_update_def application_findUnique_def)
  have r: "respondToApplication mid now d caller X appId ''approve'' = (Json (), [?d1, ?d2])"
    using assms(2,3,4) c1 c2 by (simp add: respondToApplication_def)
  have fu: "application_findUnique ?d2 appId = Some (application\<lparr>a_status := ''approved''\<rparr>)"
    using assms(4) by (simp add: application_findUnique_def fa)
  have mu: "membership_findUnique ?d2 (a_networkId application) (applicantId application) =
             membership_findUnique d (a_networkId application) (applicantId application)"
    using assms(5) by (simp add: membership_findUnique_def find_append_conv split: option.splits)
  show ?thesis
    by (intro exI [of _ ?d1] exI [of _ ?d2]) (simp add: r fu mu)
qed

theorem approve_via_other_network_witness:
  "map_option ownerId (network_findUnique db_applied ''n2'') = Some ''u2'' \<and>
   map_option a_networkId (application_findUnique db_applied ''a3'') = Some ''n1'' \<and>
   membership_findUnique db_applied ''n2'' ''u3'' = None \<and>
   membership_findUnique db_applied ''n1'' ''u3'' = None \<and>
   (\<exists>d1 d2.
      respondToApplication ''m4'' 11 db_applied ''u2'' ''n2'' ''a3'' ''approve''
        = (Json (), [d1, d2]) \<and>
      membership_findUnique d2 ''n2'' ''u3'' =
        Some \<lparr>m_id = ''m4'', m_networkId = ''n2'', m_userId = ''u3'', m_role = ''member'',
              m_status = ''active'', joinedAt = 11\<rparr> \<and>
      map_option a_status (application_findUnique d2 ''a3'') = Some ''approved'' \<and>
      membership_findUnique d2 ''n1'' ''u3'' = None)"
proof -
  let ?n = "\<lparr>n_id = ''n2'', n_name = ''Games'', n_description = None, ownerId = ''u2'',
            n_themes = [''games''], n_logoUrl = None, n_createdAt = 5\<rparr>"
  let ?a = "\<lparr>a_id = ''a3'', a_networkId = ''n1'', applicantId = ''u3'', a_message = None,
            a_status = ''pending'', a_createdAt = 10\<rparr>"
  let ?m = "\<lparr>m_id = ''m4'', m_networkId = ''n2'', m_userId = ''u3'', m_role = ''member'',
              m_status = ''active'', joinedAt = 11\<rparr>"
  have h1: "integrity db_applied" by code_simp
  have h2: "network_findUnique db_applied ''n2'' = Some ?n" by code_simp
  have h3: "ownerId ?n = ''u2''" by simp
  have h4: "application_findUnique db_applied ''a3'' = Some ?a" by code_simp
  have h5: "a_networkId ?a \<noteq> ''n2''" by simp
  have h6: "membership_findUnique db_applied ''n2'' (applicantId ?a) = None" by code_simp
  have h7: "''m4'' \<notin> set (map m_id (memberships db_applied))" by code_simp
  have h8: "membership_findUnique db_applied ''n1'' ''u3'' = None" by code_simp
  from approve_via_other_network [OF h1 h2 h3 h4 h5 h6 h7, of 11]
  obtain d1 d2 where
    r: "respondToApplication ''m4'' 11 db_applied ''u2'' ''n2'' ''a3'' ''approve'' = (Json (), [d1, d2])"
    and ms: "memberships d2 = memberships db_applied @ [?m]"
    and au: "application_findUnique d2 ''a3'' = Some (?a\<lparr>a_status := ''approved''\<rparr>)"
    and mu: "membership_findUnique d2 ''n1'' ''u3'' = membership_findUnique db_applied ''n1'' ''u3''"
    by auto
  have g: "membership_findUnique d2 ''n2'' ''u3'' = Some ?m"
    using h6 ms by (simp add: membership_findUnique_def find_append_conv)
  from r g au mu h2 h4 h6 h8 show ?thesis by simp
qed

text \<open>
  The claim as first stated, for every application and every owner of another network,
  fails here: \<open>u1\<close> owns \<open>n1\<close> and is the applicant of an application to \<open>n2\<close>;
  approving it through the path of \<open>n1\<close> fails on the unique index, since \<open>u1\<close> is a
  member of \<open>n1\<close> already, and nothing is written.
\<close>

theorem approve_existing_member_counterexample:
  "map_option ownerId (network_findUnique db_applied ''n1'') = Some ''u1'' \<and>
   application_findUnique db_applied ''a1'' =
     Some \<lparr>a_id = ''a1'', a_networkId = ''n2'', applicantId = ''u1'', a_message = Some ''hi'',
           a_status = ''pending'', a_createdAt = 9\<rparr> \<and>
   respondToApplication ''m4'' 11 db_applied ''u1'' ''n1'' ''a1'' ''approve'' =
     (Thrown (UniqueConstraint ''NetworkMembership_networkId_userId_key''), []) \<and>
   exec V0 db_applied (RespondToApplication ''m4'' 11 ''u1'' ''n1'' ''a1'' ''approve'') = db_applied"
  by code_simp

text \<open>
  Claim C10. For a caller that is a user of the store and a body that passes the schema,
  the profile update succeeds and its reply carries the whole row of the user as it is
  stored after the update, with the password hash and the email of the row.
\<close>

theorem updateProfile_returns_row:
  assumes "user_findUnique d caller = Some u" and "profileSchema V body"
  shows "\<exists>user d1. updateProfile V d caller body = (Json user, [d1]) \<and>
           user_findUnique d1 caller = Some user \<and>
           passwordHash user = passwordHash u \<and> email user = email u \<and> u_id user = caller"
proof -
  let ?g = "\<lambda>x. if u_id x = caller then profile_patch body x else x"
  have f: "find (\<lambda>x. u_id x = caller) (map ?g xs) = map_option (profile_patch body) (find (\<lambda>x. u_id x = caller) xs)" for xs
    by (induction xs) (auto simp: profile_patch_def)
  have "u_id u = caller" using assms(1) by (auto simp: user_findUnique_def dest: find_SomeD)
  then show ?thesis using assms f
    by (simp add: updateProfile_def user_update_def user_findUnique_def profile_patch_def)
qed

theorem updateProfile_returns_row_witness:
  "profileSchema V0 \<lparr>b_phone = Some ''555'', b_contactEmail = Some ''a@biz'', b_bio = None,
      b_socialLinks = None, b_isPublicProfile = None\<rparr> \<and>
   fst (updateProfile V0 db_users ''u1''
      \<lparr>b_phone = Some ''555'', b_contactEmail = Some ''a@biz'', b_bio = None,
       b_socialLinks = None, b_isPublicProfile = None\<rparr>) =
     Json \<lparr>u_id = ''u1'', email = ''a@x'', passwordHash = ''h1'', displayName = ''a'',
           bio = None, phone = Some ''555'', contactEmail = Some ''a@biz'',
           u_socialLinks = None, isPublicProfile = False, u_createdAt = 1\<rparr> \<and>
   (\<exists>user d1. updateProfile V0 db_users ''u1''
        \<lparr>b_phone = Some ''555'', b_contactEmail = Some ''a@biz'', b_bio = None,
         b_socialLinks = None, b_isPublicProfile = None\<rparr> = (Json user, [d1]) \<and>
      user_findUnique d1 ''u1'' = Some user \<and>
      passwordHash user = ''h1'' \<and> email user = ''a@x'')"
proof -
  let ?u = "\<lparr>u_id = ''u1'', email = ''a@x'', passwordHash = ''h1'', displayName = ''a'',
             bio = None, phone = None, contactEmail = None, u_socialLinks = None,
             isPublicProfile = False, u_createdAt = 1\<rparr>"
  let ?b = "\<lparr>b_phone = Some ''555'', b_contactEmail = Some ''a@biz'', b_bio = None,
      b_socialLinks = None, b_isPublicProfile = None\<rparr>"
  have h1: "user_findUnique db_users ''u1'' = Some ?u" by code_simp
  have h2: "profileSchema V0 ?b" by code_simp
  have f: "fst (updateProfile V0 db_users ''u1'' ?b) =
     Json \<lparr>u_id = ''u1'', email = ''a@x'', passwordHash = ''h1'', displayName = ''a'',
           bio = None, phone = Some ''555'', contactEmail = Some ''a@biz'',
           u_socialLinks = None, isPublicProfile = False, u_createdAt = 1\<rparr>" by code_simp
  from updateProfile_returns_row [OF h1 h2] h2 f show ?thesis by auto
qed

end
